theory Spec2Isabelle
  imports Main
begin

section \<open>Relational data and SQL fragments\<close>

text \<open>
  The feed builders of \<^verbatim>\<open>src/common/feedGenerator.ts\<close> write SQL conditions as template
  strings and hand them to a TypeORM query builder. The conditions are kept here as terms
  (\<open>sqlexpr\<close>): \<open>eval\<close> gives a condition its SQL meaning over a database of rows, in
  three-valued logic (\<open>None\<close> is SQL's unknown), \<open>execute\<close> adds the case that the
  database rejects the condition, and \<open>render\<close> spells the part of its text that the
  source itself writes.
\<close>

datatype val = VStr string | VBool bool

type_synonym row = "string \<Rightarrow> val option"
  \<comment> \<open>column name to value; \<open>None\<close> is NULL\<close>

type_synonym db = "string \<Rightarrow> row list"
  \<comment> \<open>entity name to the rows of its table\<close>

type_synonym env = "string \<Rightarrow> row option"
  \<comment> \<open>table alias to the row it is bound to\<close>

datatype pval = PStr string | PList "string list" | PUndefined

type_synonym params = "string \<Rightarrow> pval option"

text \<open>An identifier is written bare (\<open>p\<close>) or double-quoted (\<open>"p"\<close>); both name the same thing.\<close>

datatype ident = Bare string | Quoted string

datatype colref = Col ident ident

datatype selection = SelOne | SelAll | SelCol colref

datatype sqlexpr =
    EqCol colref colref
  | EqParam colref string
  | EqLit colref string
  | InParams colref string
  | NotInParams colref string
  | InText colref string
  | InSub colref query
  | IsNull colref
  | Exists query
  | Not sqlexpr
  | And sqlexpr sqlexpr
  | Or sqlexpr sqlexpr
  | Paren sqlexpr
and query = Query selection string string "sqlexpr list"

subsection \<open>Text\<close>

fun joinWith :: "string \<Rightarrow> string list \<Rightarrow> string" where
  "joinWith sep [] = []"
| "joinWith sep [x] = x"
| "joinWith sep (x # y # ys) = x @ sep @ joinWith sep (y # ys)"

fun renderIdent :: "ident \<Rightarrow> string" where
  "renderIdent (Bare s) = s"
| "renderIdent (Quoted s) = [CHR 0x22] @ s @ [CHR 0x22]"

fun renderCol :: "colref \<Rightarrow> string" where
  "renderCol (Col a c) = renderIdent a @ ''.'' @ renderIdent c"

text \<open>
  The text of a condition as the template string of the source writes it. Where the
  source splices in the text of a sub-query, which it gets from TypeORM's
  \<^verbatim>\<open>getQuery()\<close>, the text is left out and shown as \<open>(...)\<close>: what TypeORM prints there
  (the table of the entity, escaped identifiers) is not modelled.
\<close>

fun render :: "sqlexpr \<Rightarrow> string" where
  "render (EqCol a b) = renderCol a @ '' = '' @ renderCol b"
| "render (EqParam a p) = renderCol a @ '' = :'' @ p"
| "render (EqLit a l) = renderCol a @ '' = '' @ l"
| "render (InParams a p) = renderCol a @ '' IN (:...'' @ p @ '')''"
| "render (NotInParams a p) = renderCol a @ '' NOT IN (:...'' @ p @ '')''"
| "render (InText a t) = renderCol a @ '' IN ('' @ t @ '')''"
| "render (InSub a q) = renderCol a @ '' IN (...)''"
| "render (IsNull a) = renderCol a @ '' IS NULL''"
| "render (Exists q) = ''EXISTS(...)''"
| "render (Not e) = ''NOT '' @ render e"
| "render (And e f) = render e @ '' AND '' @ render f"
| "render (Or e f) = render e @ '' OR '' @ render f"
| "render (Paren e) = ''('' @ render e @ '')''"

subsection \<open>Meaning\<close>

fun identName :: "ident \<Rightarrow> string" where
  "identName (Bare s) = s"
| "identName (Quoted s) = s"

fun lookupCol :: "env \<Rightarrow> colref \<Rightarrow> val option" where
  "lookupCol env (Col a c) =
     (case env (identName a) of None \<Rightarrow> None | Some r \<Rightarrow> r (identName c))"

text \<open>
  A list of SQL string literals, as the text between the parentheses of \<open>IN (...)\<close>:
  \<open>'a','b'\<close>. Inside a literal two single quotes stand for one. The text is read by a
  small automaton; any other text, the empty one included, is not a literal list
  (\<open>parseLits\<close> gives \<open>None\<close>).

  Before the database reads the text of a condition, TypeORM rewrites in it every
  \<open>alias.property\<close> it knows and every \<open>:name\<close> of a bound parameter, inside string
  literals too. A text with neither a dot nor a colon has no such place and reaches the
  database as written (\<open>writtenThrough\<close>). The model reads an interpolated list only
  then, and gives a condition on any other interpolated text no truth value: what
  TypeORM's rewriting or injected SQL would make of it is outside the model.
\<close>

definition writtenThrough :: "string \<Rightarrow> bool" where
  "writtenThrough t = (CHR ''.'' \<notin> set t \<and> CHR '':'' \<notin> set t)"

datatype lexmode = Start | InLit | AfterQuote | Bad

type_synonym lexstate = "lexmode \<times> string \<times> string list"

fun lexStep :: "lexstate \<Rightarrow> char \<Rightarrow> lexstate" where
  "lexStep (Start, cur, lits) c =
     (if c = CHR 0x27 then (InLit, [], lits) else (Bad, cur, lits))"
| "lexStep (InLit, cur, lits) c =
     (if c = CHR 0x27 then (AfterQuote, cur, lits) else (InLit, cur @ [c], lits))"
| "lexStep (AfterQuote, cur, lits) c =
     (if c = CHR 0x27 then (InLit, cur @ [c], lits)
      else if c = CHR '','' then (Start, [], lits @ [cur])
      else (Bad, cur, lits))"
| "lexStep (Bad, cur, lits) c = (Bad, cur, lits)"

definition parseLits :: "string \<Rightarrow> string list option" where
  "parseLits t =
     (case foldl lexStep (Start, [], []) t of
        (AfterQuote, cur, lits) \<Rightarrow> Some (lits @ [cur])
      | _ \<Rightarrow> None)"

fun litVal :: "string \<Rightarrow> val option" where
  "litVal l =
     (if l = ''true'' \<or> l = ''TRUE'' then Some (VBool True)
      else if l = ''false'' \<or> l = ''FALSE'' then Some (VBool False)
      else None)"

definition eq3 :: "val option \<Rightarrow> val option \<Rightarrow> bool option" where
  "eq3 a b = (case (a, b) of (Some x, Some y) \<Rightarrow> Some (x = y) | _ \<Rightarrow> None)"

definition not3 :: "bool option \<Rightarrow> bool option" where
  "not3 a = map_option (\<lambda>b. \<not> b) a"

definition and3 :: "bool option \<Rightarrow> bool option \<Rightarrow> bool option" where
  "and3 a b =
     (if a = Some False \<or> b = Some False then Some False
      else if a = Some True \<and> b = Some True then Some True
      else None)"

definition or3 :: "bool option \<Rightarrow> bool option \<Rightarrow> bool option" where
  "or3 a b =
     (if a = Some True \<or> b = Some True then Some True
      else if a = Some False \<and> b = Some False then Some False
      else None)"

text \<open>\<open>x IN (v1, ..., vn)\<close> over the values of a list or of a sub-query: true when some
  \<open>vi\<close> equals \<open>x\<close>, unknown when \<open>x\<close> or a \<open>vi\<close> is NULL and none equals, false
  otherwise; over the rows of a sub-query that returns none it is false.\<close>

definition in3 :: "val option \<Rightarrow> val option list \<Rightarrow> bool option" where
  "in3 x vs =
     (case x of
        None \<Rightarrow> (if vs = [] then Some False else None)
      | Some v \<Rightarrow>
          (if Some v \<in> set vs then Some True
           else if None \<in> set vs then None
           else Some False))"

fun selVal :: "env \<Rightarrow> selection \<Rightarrow> val option" where
  "selVal env SelOne = Some (VStr ''1'')"
| "selVal env SelAll = None"
| "selVal env (SelCol c) = lookupCol env c"

fun eval :: "db \<Rightarrow> params \<Rightarrow> env \<Rightarrow> sqlexpr \<Rightarrow> bool option"
  and queryRows :: "db \<Rightarrow> params \<Rightarrow> env \<Rightarrow> query \<Rightarrow> row list \<Rightarrow> env list"
  and holds :: "db \<Rightarrow> params \<Rightarrow> env \<Rightarrow> sqlexpr list \<Rightarrow> bool" where
  "eval d ps env (EqCol a b) = eq3 (lookupCol env a) (lookupCol env b)"
| "eval d ps env (EqParam a p) =
     (case ps p of Some (PStr s) \<Rightarrow> eq3 (lookupCol env a) (Some (VStr s)) | _ \<Rightarrow> None)"
| "eval d ps env (EqLit a l) = eq3 (lookupCol env a) (litVal l)"
| "eval d ps env (InParams a p) =
     (case ps p of
        Some (PList xs) \<Rightarrow>
          if xs = [] then None else in3 (lookupCol env a) (map (\<lambda>x. Some (VStr x)) xs)
      | _ \<Rightarrow> None)"
| "eval d ps env (NotInParams a p) =
     (case ps p of
        Some (PList xs) \<Rightarrow>
          if xs = [] then None
          else not3 (in3 (lookupCol env a) (map (\<lambda>x. Some (VStr x)) xs))
      | _ \<Rightarrow> None)"
| "eval d ps env (InText a t) =
     (if writtenThrough t then
        (case parseLits t of
           Some xs \<Rightarrow> in3 (lookupCol env a) (map (\<lambda>x. Some (VStr x)) xs)
         | None \<Rightarrow> None)
      else None)"
| "eval d ps env (InSub a (Query sel tab al ws)) =
     in3 (lookupCol env a)
       (map (\<lambda>e. selVal e sel) (queryRows d ps env (Query sel tab al ws) (d tab)))"
| "eval d ps env (IsNull a) = Some (lookupCol env a = None)"
| "eval d ps env (Exists (Query sel tab al ws)) =
     Some (queryRows d ps env (Query sel tab al ws) (d tab) \<noteq> [])"
| "eval d ps env (Not e) = not3 (eval d ps env e)"
| "eval d ps env (And e f) = and3 (eval d ps env e) (eval d ps env f)"
| "eval d ps env (Or e f) = or3 (eval d ps env e) (eval d ps env f)"
| "eval d ps env (Paren e) = eval d ps env e"
| "queryRows d ps env (Query sel tab al ws) [] = []"
| "queryRows d ps env (Query sel tab al ws) (r # rs) =
     (if holds d ps (env(al \<mapsto> r)) ws then [env(al \<mapsto> r)] else []) @
     queryRows d ps env (Query sel tab al ws) rs"
| "holds d ps env [] = True"
| "holds d ps env (w # ws) = (eval d ps env w = Some True \<and> holds d ps env ws)"

subsection \<open>Statements the database rejects\<close>

text \<open>
  An \<open>IN\<close> list must not be empty. TypeORM expands \<open>IN (:...name)\<close> into one placeholder
  per element of the list bound to \<open>name\<close>, so an empty list gives \<open>IN ()\<close>, and so does an
  empty interpolated text; the database rejects the whole statement with a syntax error,
  wherever in it the list stands. \<open>emptyIn\<close> finds such a list, and \<open>execute\<close> is what
  the database answers for a condition: the error, or else its truth value.
\<close>

fun emptyIn :: "params \<Rightarrow> sqlexpr \<Rightarrow> bool"
  and emptyInAll :: "params \<Rightarrow> sqlexpr list \<Rightarrow> bool" where
  "emptyIn ps (EqCol a b) = False"
| "emptyIn ps (EqParam a p) = False"
| "emptyIn ps (EqLit a l) = False"
| "emptyIn ps (InParams a p) = (ps p = Some (PList []))"
| "emptyIn ps (NotInParams a p) = (ps p = Some (PList []))"
| "emptyIn ps (InText a t) = (t = [])"
| "emptyIn ps (InSub a (Query sel tab al ws)) = emptyInAll ps ws"
| "emptyIn ps (IsNull a) = False"
| "emptyIn ps (Exists (Query sel tab al ws)) = emptyInAll ps ws"
| "emptyIn ps (Not e) = emptyIn ps e"
| "emptyIn ps (And e f) = (emptyIn ps e \<or> emptyIn ps f)"
| "emptyIn ps (Or e f) = (emptyIn ps e \<or> emptyIn ps f)"
| "emptyIn ps (Paren e) = emptyIn ps e"
| "emptyInAll ps [] = False"
| "emptyInAll ps (w # ws) = (emptyIn ps w \<or> emptyInAll ps ws)"

datatype outcome = SyntaxError | Truth "bool option"

definition execute :: "db \<Rightarrow> params \<Rightarrow> env \<Rightarrow> sqlexpr \<Rightarrow> outcome" where
  "execute d ps env e = (if emptyIn ps e then SyntaxError else Truth (eval d ps env e))"

section \<open>The query builder\<close>

text \<open>
  TypeORM's \<^verbatim>\<open>SelectQueryBuilder\<close>, as far as the feed builders use it: the builder collects
  joins, conditions, an ordering and named parameters. Its methods change the builder they
  are called on and return it; here each takes the builder and returns the changed one.
  \<^verbatim>\<open>where\<close> and \<^verbatim>\<open>orderBy\<close> replace what was set before, \<^verbatim>\<open>andWhere\<close> adds.
  A sub-query builder made by \<^verbatim>\<open>subQuery()\<close> starts empty and shares the parameters of
  its parent: a parameter set on it is set on the parent too.
\<close>

datatype joinKind = LeftJoin | InnerJoin

datatype join = Join joinKind string string sqlexpr

record builder =
  selects :: "selection list"
  fromTable :: "(string \<times> string) option"
  joins :: "join list"
  wheres :: "sqlexpr list"
  orderBys :: "string list"
  parameters :: params

fun setParameters :: "(string \<times> pval) list \<Rightarrow> params \<Rightarrow> params" where
  "setParameters [] ps = ps"
| "setParameters ((k, v) # kvs) ps = setParameters kvs (ps(k \<mapsto> v))"

definition subQuery :: "builder \<Rightarrow> builder" where
  "subQuery b =
     \<lparr>selects = [], fromTable = None, joins = [], wheres = [], orderBys = [],
      parameters = parameters b\<rparr>"

definition adoptParameters :: "builder \<Rightarrow> builder \<Rightarrow> builder" where
  \<comment> \<open>the parent after its sub-query builder \<open>sub\<close> was used\<close>
  "adoptParameters b sub = b\<lparr>parameters := parameters sub\<rparr>"

definition select :: "selection \<Rightarrow> builder \<Rightarrow> builder" where
  "select sel b = b\<lparr>selects := [sel]\<rparr>"

definition fromEntity :: "string \<Rightarrow> string \<Rightarrow> builder \<Rightarrow> builder" where
  "fromEntity entity a b = b\<lparr>fromTable := Some (entity, a)\<rparr>"

definition whereCond :: "sqlexpr \<Rightarrow> (string \<times> pval) list \<Rightarrow> builder \<Rightarrow> builder" where
  "whereCond c kvs b = b\<lparr>wheres := [c], parameters := setParameters kvs (parameters b)\<rparr>"

definition andWhere :: "sqlexpr \<Rightarrow> (string \<times> pval) list \<Rightarrow> builder \<Rightarrow> builder" where
  "andWhere c kvs b =
     b\<lparr>wheres := wheres b @ [c], parameters := setParameters kvs (parameters b)\<rparr>"

definition andWhereFn :: "(builder \<Rightarrow> sqlexpr \<times> builder) \<Rightarrow> builder \<Rightarrow> builder" where
  \<comment> \<open>\<^verbatim>\<open>andWhere((builder) => ...)\<close>: the callback is run on the builder itself\<close>
  "andWhereFn f b = (case f b of (c, b') \<Rightarrow> b'\<lparr>wheres := wheres b' @ [c]\<rparr>)"

definition leftJoin ::
  "string \<Rightarrow> string \<Rightarrow> sqlexpr \<Rightarrow> (string \<times> pval) list \<Rightarrow> builder \<Rightarrow> builder" where
  "leftJoin entity a c kvs b =
     b\<lparr>joins := joins b @ [Join LeftJoin entity a c],
       parameters := setParameters kvs (parameters b)\<rparr>"

definition orderBy :: "string \<Rightarrow> builder \<Rightarrow> builder" where
  "orderBy srt b = b\<lparr>orderBys := [srt]\<rparr>"

definition getQuery :: "builder \<Rightarrow> query" where
  \<comment> \<open>of a sub-query builder; with nothing selected every column is\<close>
  "getQuery b =
     (case fromTable b of
        Some (entity, a) \<Rightarrow>
          Query (case selects b of [] \<Rightarrow> SelAll | s # _ \<Rightarrow> s) entity a (wheres b)
      | None \<Rightarrow> Query (case selects b of [] \<Rightarrow> SelAll | s # _ \<Rightarrow> s) [] [] (wheres b))"

text \<open>
  The rows a builder selects. A row \<open>p\<close> of the main table, bound to the main alias, is
  selected when some combination of joined rows makes every condition true. A left join
  binds its alias to each row of the joined table that satisfies the join condition, and
  to the all-NULL row when none does; an inner join drops the row in that case.
\<close>

definition nullRow :: row where
  "nullRow = (\<lambda>c. None)"

fun joinAlias :: "join \<Rightarrow> string" where
  "joinAlias (Join k entity a c) = a"

fun joinRows :: "db \<Rightarrow> params \<Rightarrow> env \<Rightarrow> join \<Rightarrow> row list" where
  "joinRows d ps env (Join k entity a c) =
     (let ms = filter (\<lambda>r. eval d ps (env(a \<mapsto> r)) c = Some True) (d entity)
      in if ms = [] then (case k of LeftJoin \<Rightarrow> [nullRow] | InnerJoin \<Rightarrow> []) else ms)"

fun joinEnvs :: "db \<Rightarrow> params \<Rightarrow> join list \<Rightarrow> env \<Rightarrow> env list" where
  "joinEnvs d ps [] env = [env]"
| "joinEnvs d ps (j # js) env =
     concat (map (\<lambda>r. joinEnvs d ps js (env(joinAlias j \<mapsto> r))) (joinRows d ps env j))"

definition selected :: "db \<Rightarrow> builder \<Rightarrow> string \<Rightarrow> row \<Rightarrow> bool" where
  "selected d b alias p =
     (\<exists>env \<in> set (joinEnvs d (parameters b) (joins b) (Map.empty(alias \<mapsto> p))).
        holds d (parameters b) env (wheres b))"

section \<open>The feed builders\<close>

text \<open>\<^verbatim>\<open>Context\<close>: the request's user, absent for an anonymous visitor.\<close>

record Context =
  userId :: "string option"
  premium :: bool

definition truthy :: "string option \<Rightarrow> bool" where
  \<comment> \<open>JavaScript's truth of an optional string: \<^verbatim>\<open>undefined\<close> and \<^verbatim>\<open>''\<close> are false\<close>
  "truthy s = (case s of None \<Rightarrow> False | Some x \<Rightarrow> x \<noteq> [])"

definition paramOf :: "string option \<Rightarrow> pval" where
  "paramOf s = (case s of None \<Rightarrow> PUndefined | Some x \<Rightarrow> PStr x)"

text \<open>
  A function of the source that returns a condition as a string, and binds parameters on
  the builder it is given, returns here the condition together with the builder after the
  binding. \<^verbatim>\<open>variableAlias\<close> of \<^verbatim>\<open>whereTags\<close> defaults to \<^verbatim>\<open>'tags'\<close> in the source; a
  caller that leaves it out passes \<open>''tags''\<close> here.
\<close>

definition whereTags ::
  "string list \<Rightarrow> builder \<Rightarrow> string \<Rightarrow> string \<Rightarrow> sqlexpr \<times> builder" where
  "whereTags tags builder alias variableAlias =
     (let q0 = subQuery builder;
          q1 = select SelOne q0;
          q2 = fromEntity ''PostKeyword'' ''pk'' q1;
          q3 = whereCond (InParams (Col (Bare ''pk'') (Bare ''keyword'')) variableAlias)
                 [(variableAlias, PList tags)] q2;
          q4 = andWhere (EqCol (Col (Bare ''pk'') (Bare ''postId'')) (Col (Bare alias) (Bare ''id'')))
                 [] q3
      in (Exists (getQuery q4), adoptParameters builder q4))"

definition whereNotTags :: "string list \<Rightarrow> builder \<Rightarrow> string \<Rightarrow> sqlexpr \<times> builder" where
  "whereNotTags tags builder alias =
     (case whereTags tags builder alias ''blockedTags'' of (e, b) \<Rightarrow> (Not e, b))"

definition whereTagsInFeed :: "string \<Rightarrow> builder \<Rightarrow> string \<Rightarrow> sqlexpr \<times> builder" where
  "whereTagsInFeed feedId builder alias =
     (let f0 = subQuery builder;
          f1 = select (SelCol (Col (Bare ''feed'') (Bare ''tag''))) f0;
          f2 = fromEntity ''FeedTag'' ''feed'' f1;
          f3 = whereCond (EqParam (Col (Bare ''feed'') (Bare ''feedId'')) ''feedId'')
                 [(''feedId'', PStr feedId)] f2;
          feedTag = getQuery f3;
          builder1 = adoptParameters builder f3;
          q0 = subQuery builder1;
          q1 = select SelOne q0;
          q2 = fromEntity ''PostKeyword'' ''pk'' q1;
          q3 = whereCond (InSub (Col (Bare ''pk'') (Bare ''keyword'')) feedTag) [] q2;
          q4 = andWhere (EqCol (Col (Bare ''pk'') (Bare ''postId'')) (Col (Bare alias) (Bare ''id'')))
                 [] q3;
          query = getQuery q4
      in (Paren (Or (Not (Exists feedTag)) (Exists query)), adoptParameters builder1 q4))"

definition applyFeedWhere ::
  "Context \<Rightarrow> builder \<Rightarrow> string \<Rightarrow> bool \<Rightarrow> bool \<Rightarrow> builder" where
  "applyFeedWhere ctx builder alias removeHiddenPosts removeBannedPosts =
     (let s0 = subQuery builder;
          s1 = fromEntity ''Source'' ''source'' s0;
          s2 = whereCond (EqLit (Col (Bare ''source'') (Bare ''active'')) ''true'') [] s1;
          s3 = andWhere (EqCol (Col (Bare ''source'') (Bare ''id''))
                          (Col (Quoted alias) (Quoted ''sourceId''))) [] s2;
          selectSource = andWhere (EqLit (Col (Bare alias) (Bare ''deleted'')) ''false'') [] s3;
          newBuilder = andWhere (Exists (getQuery selectSource))
                         [(''userId'', paramOf (userId ctx))]
                         (adoptParameters builder selectSource);
          newBuilder1 =
            (if truthy (userId ctx) \<and> removeHiddenPosts then
               andWhere (IsNull (Col (Bare ''hidden'') (Bare ''postId''))) []
                 (leftJoin ''HiddenPost'' ''hidden''
                    (And (EqCol (Col (Bare ''hidden'') (Bare ''postId'')) (Col (Quoted alias) (Bare ''id'')))
                         (EqParam (Col (Bare ''hidden'') (Bare ''userId'')) ''userId''))
                    [(''userId'', paramOf (userId ctx))] newBuilder)
             else newBuilder)
      in if removeBannedPosts then
           andWhere (EqLit (Col (Quoted alias) (Bare ''banned'')) ''FALSE'') [] newBuilder1
         else newBuilder1)"

record AnonymousFeedFilters =
  includeSources :: "string list option"
  excludeSources :: "string list option"
  includeTags :: "string list option"
  blockedTags :: "string list option"

definition hasLength :: "string list option \<Rightarrow> bool" where
  \<comment> \<open>\<^verbatim>\<open>xs?.length\<close> as a condition: the list is there and not empty\<close>
  "hasLength xs = (case xs of None \<Rightarrow> False | Some ys \<Rightarrow> ys \<noteq> [])"

definition listOf :: "string list option \<Rightarrow> string list" where
  "listOf xs = (case xs of None \<Rightarrow> [] | Some ys \<Rightarrow> ys)"

definition anonymousFeedBuilder ::
  "Context \<Rightarrow> AnonymousFeedFilters \<Rightarrow> builder \<Rightarrow> string \<Rightarrow> builder" where
  "anonymousFeedBuilder ctx filters builder alias =
     (let newBuilder1 =
            (if hasLength (includeSources filters) then
               andWhere (InParams (Col (Bare alias) (Quoted ''sourceId'')) ''sources'')
                 [(''sources'', PList (listOf (includeSources filters)))] builder
             else if hasLength (excludeSources filters) then
               andWhere (NotInParams (Col (Bare alias) (Quoted ''sourceId'')) ''sources'')
                 [(''sources'', PList (listOf (excludeSources filters)))] builder
             else builder);
          newBuilder2 =
            (if hasLength (includeTags filters) then
               andWhereFn (\<lambda>builder. whereTags (listOf (includeTags filters)) builder alias ''tags'')
                 newBuilder1
             else newBuilder1)
      in if hasLength (blockedTags filters) then
           andWhereFn (\<lambda>builder. whereNotTags (listOf (blockedTags filters)) builder alias)
             newBuilder2
         else newBuilder2)"

definition quoteId :: "string \<Rightarrow> string" where
  \<comment> \<open>the template \<^verbatim>\<open>`'${id}'`\<close>\<close>
  "quoteId ident = [CHR 0x27] @ ident @ [CHR 0x27]"

definition idsStr :: "string list \<Rightarrow> string" where
  "idsStr ids =
     (if length ids \<noteq> 0 then joinWith '','' (map quoteId ids)
      else [CHR 0x27] @ ''nosuchid'' @ [CHR 0x27])"

definition fixedIdsFeedBuilder ::
  "Context \<Rightarrow> string list \<Rightarrow> builder \<Rightarrow> string \<Rightarrow> builder" where
  "fixedIdsFeedBuilder ctx ids builder alias =
     orderBy (''array_position(array['' @ idsStr ids @ ''], '' @ alias @ ''.id)'')
       (andWhere (InText (Col (Bare alias) (Bare ''id'')) (idsStr ids)) [] builder)"

text \<open>
  \<^verbatim>\<open>feedToFilters\<close> reads the feed's tag and source rows through the repositories. A
  row's \<^verbatim>\<open>tag\<close> and \<^verbatim>\<open>sourceId\<close> are key columns, never NULL; \<open>colStr\<close> reads them.
\<close>

definition colStr :: "row \<Rightarrow> string \<Rightarrow> string" where
  "colStr r c = (case r c of Some (VStr s) \<Rightarrow> s | _ \<Rightarrow> [])"

definition findByFeedId :: "db \<Rightarrow> string \<Rightarrow> string \<Rightarrow> row list" where
  \<comment> \<open>\<^verbatim>\<open>con.getRepository(entity).find({ where: { feedId } })\<close>\<close>
  "findByFeedId d entity feedId = filter (\<lambda>r. r ''feedId'' = Some (VStr feedId)) (d entity)"

definition tagFilters :: "row list \<Rightarrow> string list \<times> string list" where
  \<comment> \<open>the \<^verbatim>\<open>reduce\<close> over the tag rows: (includeTags, blockedTags)\<close>
  "tagFilters tags =
     foldl (\<lambda>acc value.
              if value ''blocked'' = Some (VBool True)
              then (fst acc, snd acc @ [colStr value ''tag''])
              else (fst acc @ [colStr value ''tag''], snd acc))
       ([], []) tags"

definition feedToFilters :: "db \<Rightarrow> string \<Rightarrow> AnonymousFeedFilters" where
  "feedToFilters d feedId =
     (let tags = findByFeedId d ''FeedTag'' feedId;
          excludeSources = map (\<lambda>r. colStr r ''sourceId'') (findByFeedId d ''FeedSource'' feedId)
      in \<lparr>includeSources = None,
          excludeSources = Some excludeSources,
          includeTags = Some (fst (tagFilters tags)),
          blockedTags = Some (snd (tagFilters tags))\<rparr>)"

section \<open>The personalized feed cache\<close>

text \<open>
  \<^verbatim>\<open>src/personalizedFeed.ts\<close> (\<^verbatim>\<open>generatePersonalizedFeed\<close>, \<^verbatim>\<open>getPersonalizedFeedKey\<close>
  and the call of the ranking service) is not among the sources; only its test
  \<^verbatim>\<open>__tests__/personalizedFeed.ts\<close> is. Every definition of this section is modelled from
  the specification, as its comment says, and is run against the scenarios of the test
  further down. The ranking service itself is a parameter: a function from the request it
  receives to the ids it answers with, or \<open>None\<close> when it fails.
\<close>

text \<open>
  Modelled from the spec: the feed specification of section 3,
  \<open>{ userId?, feedId?, pageSize, offset }\<close>; \<^verbatim>\<open>generatePersonalizedFeed\<close> is missing, the
  test calls it with these four values.
\<close>

record FeedSpec =
  specUserId :: "string option"
  specFeedId :: "string option"
  pageSize :: nat
  offset :: nat

text \<open>
  Modelled from the spec: the numbers of the query string (section 6,
  \<open>page_size={n}&fresh_page_size={m}\<close>), written in decimal; the function that builds the
  query string is missing. \<open>digit\<close> is only applied to numbers below ten.
\<close>

definition digit :: "nat \<Rightarrow> char" where
  "digit n = ''0123456789'' ! n"

fun showNat :: "nat \<Rightarrow> string" where
  "showNat n = (if n < 10 then [digit n] else showNat (n div 10) @ [digit (n mod 10)])"

text \<open>
  Modelled from the spec: the query construction rule of the Ranking Client (section 4.2),
  whose code is missing: the parameters are appended in the order token, page_size,
  fresh_page_size, user_id, allowed_tags, blocked_tags, blocked_sources; the lists are
  comma-joined; the user id and each list are present only when non-empty, and are left
  out entirely otherwise. The filters are those of \<^verbatim>\<open>feedToFilters\<close>, there when the
  request names a feed.
\<close>

definition fieldOf ::
  "(AnonymousFeedFilters \<Rightarrow> string list option) \<Rightarrow> AnonymousFeedFilters option \<Rightarrow>
     string list option" where
  "fieldOf sel filters = (case filters of None \<Rightarrow> None | Some f \<Rightarrow> sel f)"

definition userParam :: "string option \<Rightarrow> (string \<times> string) list" where
  "userParam uid =
     (case uid of None \<Rightarrow> [] | Some u \<Rightarrow> if u = [] then [] else [(''user_id'', u)])"

definition listParam :: "string \<Rightarrow> string list option \<Rightarrow> (string \<times> string) list" where
  "listParam k xs = (if hasLength xs then [(k, joinWith '','' (listOf xs))] else [])"

definition queryParams ::
  "string \<Rightarrow> nat \<Rightarrow> nat \<Rightarrow> string option \<Rightarrow> AnonymousFeedFilters option \<Rightarrow> (string \<times> string) list" where
  "queryParams token n m uid filters =
     [(''token'', token), (''page_size'', showNat n), (''fresh_page_size'', showNat m)] @
     userParam uid @
     listParam ''allowed_tags'' (fieldOf includeTags filters) @
     listParam ''blocked_tags'' (fieldOf blockedTags filters) @
     listParam ''blocked_sources'' (fieldOf excludeSources filters)"

text \<open>
  Modelled from the spec: the request of the ranking service HTTP contract (section 6),
  \<open>GET {base}/feed.json?token=...&page_size=...\<close>, sent by the missing Ranking Client; the
  fresh page size is 1 (section 4.3, step 4). The request is kept without its base.
\<close>

definition queryString :: "(string \<times> string) list \<Rightarrow> string" where
  "queryString kvs = joinWith ''&'' (map (\<lambda>(k, v). k @ ''='' @ v) kvs)"

definition freshPageSize :: nat where
  "freshPageSize = 1"

definition rankingRequest :: "string \<Rightarrow> FeedSpec \<Rightarrow> AnonymousFeedFilters option \<Rightarrow> string" where
  "rankingRequest token spec filters =
     ''/feed.json?'' @
     queryString (queryParams token (pageSize spec) freshPageSize (specUserId spec) filters)"

text \<open>
  Modelled from the spec: the Cache Store of section 4.1, whose code is missing. Per key
  it holds the rank-ordered ids and the time of the last update, in milliseconds;
  \<open>calls\<close> lists the requests sent to the ranking service so far, which is how the
  number of external calls is counted.
\<close>

record FeedState =
  ranks :: "string \<Rightarrow> string list"
  times :: "string \<Rightarrow> nat option"
  calls :: "string list"

text \<open>
  Modelled from the spec: the failure of a mandatory fetch (section 7,
  \<open>UpstreamFetchError\<close>), raised by the missing \<^verbatim>\<open>generatePersonalizedFeed\<close>.
\<close>

datatype FeedError = UpstreamFetchError

text \<open>
  Modelled from the spec: the cache key namespace of section 6,
  \<open>feeds:{feedId|"anonymous"}[:{userId}]\<close>; \<^verbatim>\<open>getPersonalizedFeedKey\<close> is missing.
\<close>

definition getPersonalizedFeedKey :: "string option \<Rightarrow> string option \<Rightarrow> string" where
  "getPersonalizedFeedKey uid fid =
     ''feeds:'' @ (case fid of None \<Rightarrow> ''anonymous'' | Some f \<Rightarrow> f) @
     (case uid of None \<Rightarrow> [] | Some u \<Rightarrow> '':'' @ u)"

text \<open>
  Modelled from the spec: the freshness test of section 4.3, step 3, in its precise form;
  the code that decides it is missing. A fetch is triggered when there is no timestamp,
  when the offset is 0 and the timestamp is older than the threshold of 30 minutes, or
  when the requested range extends beyond what is cached.
\<close>

definition staleThreshold :: nat where
  "staleThreshold = 30 * 60 * 1000"

definition isStale :: "nat \<Rightarrow> nat \<Rightarrow> bool" where
  "isStale now ts = (ts + staleThreshold < now)"

definition needsFetch :: "nat \<Rightarrow> FeedSpec \<Rightarrow> string list \<Rightarrow> nat option \<Rightarrow> bool" where
  "needsFetch now spec cached t =
     (case t of
        None \<Rightarrow> True
      | Some ts \<Rightarrow>
          (offset spec = 0 \<and> isStale now ts) \<or> length cached < offset spec + pageSize spec)"

text \<open>
  Modelled from the spec: the cache write of section 4.3, step 4, on the store of section
  4.1; the code that writes the cache is missing. The returned ids are appended to the
  cached sequence, in response order, at ranks continuing from the current maximum; the
  cached entries are neither removed nor overwritten. An id is a member of the store at
  one rank only, so a returned id that is already cached keeps the rank it has and is not
  added again. The response is stored as the service gives it: a ranking lists an id
  once, and then the cache holds no id twice.
\<close>

definition mergeFetched :: "string list \<Rightarrow> string list \<Rightarrow> string list" where
  "mergeFetched cached fetched = cached @ filter (\<lambda>x. x \<notin> set cached) fetched"

text \<open>
  Modelled from the spec: the algorithm of the Personalized Feed Cache Manager, section
  4.3, steps 1 to 5 (\<^verbatim>\<open>generatePersonalizedFeed\<close>, missing from the sources): compute
  the key, read the timestamp, decide whether to fetch; on a fetch call the ranking
  service once, append its ids to the cache and set the timestamp to now, and fail when
  the service fails; return the slice \<open>[offset, offset + pageSize)\<close> of the cached ids.

  One case is taken from the test and from section 8 instead of step 5. When the head of
  a stale cache is re-validated (offset 0, timestamp older than the threshold), the
  request "returns the fetch's first two ids, not \<open>[7,8]\<close>", as the test
  \<^verbatim>\<open>should fetch anonymous feed even when cache is old\<close> checks, while the cached ids stay
  where they are: the page served by that fetch is the head of the response.
\<close>

definition revalidates :: "nat \<Rightarrow> FeedSpec \<Rightarrow> nat option \<Rightarrow> bool" where
  "revalidates now spec t =
     (case t of None \<Rightarrow> False | Some ts \<Rightarrow> offset spec = 0 \<and> isStale now ts)"

definition slice :: "FeedSpec \<Rightarrow> string list \<Rightarrow> string list" where
  "slice spec xs = take (pageSize spec) (drop (offset spec) xs)"

definition generatePersonalizedFeed ::
  "(string \<Rightarrow> string list option) \<Rightarrow> string \<Rightarrow> db \<Rightarrow> nat \<Rightarrow> FeedSpec \<Rightarrow> FeedState \<Rightarrow>
     (FeedError + string list) \<times> FeedState" where
  "generatePersonalizedFeed service token d now spec st =
     (let key = getPersonalizedFeedKey (specUserId spec) (specFeedId spec);
          cached = ranks st key;
          t = times st key
      in if needsFetch now spec cached t then
           (let filters = map_option (feedToFilters d) (specFeedId spec);
                request = rankingRequest token spec filters;
                st1 = st\<lparr>calls := calls st @ [request]\<rparr>
            in case service request of
                 None \<Rightarrow> (Inl UpstreamFetchError, st1)
               | Some ids \<Rightarrow>
                   (let merged = mergeFetched cached ids
                    in (Inr (if revalidates now spec t then slice spec ids
                             else slice spec merged),
                        st1\<lparr>ranks := (ranks st1)(key := merged),
                            times := (times st1)(key \<mapsto> now)\<rparr>)))
         else (Inr (slice spec cached), st))"

section \<open>Example data\<close>

text \<open>A small database and request context, used to run the definitions on concrete input.\<close>

definition ctx0 :: Context where
  "ctx0 = \<lparr>userId = None, premium = False\<rparr>"

definition b0 :: builder where
  "b0 = \<lparr>selects = [], fromTable = Some (''Post'', ''p''), joins = [], wheres = [],
         orderBys = [], parameters = Map.empty\<rparr>"

definition mkPost :: "string \<Rightarrow> string \<Rightarrow> bool \<Rightarrow> bool \<Rightarrow> row" where
  "mkPost i s del ban =
     [''id'' \<mapsto> VStr i, ''sourceId'' \<mapsto> VStr s, ''deleted'' \<mapsto> VBool del, ''banned'' \<mapsto> VBool ban]"

definition postNo :: row where
  "postNo = mkPost ''nosuchid'' ''a'' False False"

definition post1 :: row where
  "post1 = mkPost ''p1'' ''a'' False False"

definition dbEx :: db where
  "dbEx t =
     (if t = ''Post'' then [post1, postNo]
      else if t = ''Source'' then
        [[''id'' \<mapsto> VStr ''a'', ''active'' \<mapsto> VBool True],
         [''id'' \<mapsto> VStr ''b'', ''active'' \<mapsto> VBool False]]
      else [])"

definition kw :: "string \<Rightarrow> string \<Rightarrow> row" where
  "kw i k = [''postId'' \<mapsto> VStr i, ''keyword'' \<mapsto> VStr k]"

definition dbTags :: db where
  "dbTags t =
     (if t = ''Post'' then [post1]
      else if t = ''PostKeyword'' then [kw ''p1'' ''javascript'', kw ''p1'' ''python'']
      else if t = ''FeedTag'' then
        [[''feedId'' \<mapsto> VStr ''1'', ''tag'' \<mapsto> VStr ''javascript'', ''blocked'' \<mapsto> VBool False],
         [''feedId'' \<mapsto> VStr ''1'', ''tag'' \<mapsto> VStr ''golang'', ''blocked'' \<mapsto> VBool False],
         [''feedId'' \<mapsto> VStr ''1'', ''tag'' \<mapsto> VStr ''python'', ''blocked'' \<mapsto> VBool True],
         [''feedId'' \<mapsto> VStr ''1'', ''tag'' \<mapsto> VStr ''java'', ''blocked'' \<mapsto> VBool True]]
      else if t = ''FeedSource'' then
        [[''feedId'' \<mapsto> VStr ''1'', ''sourceId'' \<mapsto> VStr ''a''],
         [''feedId'' \<mapsto> VStr ''1'', ''sourceId'' \<mapsto> VStr ''b'']]
      else [])"

definition fBoth :: AnonymousFeedFilters where
  "fBoth = \<lparr>includeSources = None, excludeSources = None,
            includeTags = Some [''javascript''], blockedTags = Some [''python'']\<rparr>"

definition fSources :: AnonymousFeedFilters where
  "fSources = \<lparr>includeSources = Some [''a''], excludeSources = Some [''a''],
               includeTags = None, blockedTags = Some [''java'']\<rparr>"

definition ctxU :: Context where
  "ctxU = \<lparr>userId = Some ''u1'', premium = False\<rparr>"

definition post5 :: row where
  "post5 = mkPost ''p5'' ''a'' False False"

definition dbFeed :: db where
  "dbFeed t =
     (if t = ''Post'' then
        [post1, mkPost ''p2'' ''b'' False False, mkPost ''p3'' ''a'' True False,
         mkPost ''p4'' ''a'' False True, post5]
      else if t = ''Source'' then
        [[''id'' \<mapsto> VStr ''a'', ''active'' \<mapsto> VBool True],
         [''id'' \<mapsto> VStr ''b'', ''active'' \<mapsto> VBool False]]
      else if t = ''HiddenPost'' then
        [[''postId'' \<mapsto> VStr ''p5'', ''userId'' \<mapsto> VStr ''u1'']]
      else [])"

definition fixedOrder :: "string list" where
  "fixedOrder =
     [''token'', ''page_size'', ''fresh_page_size'', ''user_id'', ''allowed_tags'',
      ''blocked_tags'', ''blocked_sources'']"

definition anonKey :: string where
  "anonKey = getPersonalizedFeedKey None None"

definition page :: "nat \<Rightarrow> nat \<Rightarrow> FeedSpec" where
  "page n off = \<lparr>specUserId = None, specFeedId = None, pageSize = n, offset = off\<rparr>"

definition coldState :: FeedState where
  "coldState = \<lparr>ranks = (\<lambda>k. []), times = (\<lambda>k. None), calls = []\<rparr>"

definition seededState :: "nat \<Rightarrow> FeedState" where
  \<comment> \<open>the anonymous cache holding \<open>7, 8\<close>, last updated at the given time\<close>
  "seededState ts =
     \<lparr>ranks = (\<lambda>k. if k = anonKey then [''7'', ''8''] else []),
      times = (\<lambda>k. if k = anonKey then Some ts else None),
      calls = []\<rparr>"

definition tinybirdResponse :: "string list" where
  "tinybirdResponse = [''1'', ''2'', ''3'', ''4'', ''5'', ''6'']"

definition tinybird :: "string \<Rightarrow> string list option" where
  \<comment> \<open>the ranking service of the tests: six ids, whatever the request\<close>
  "tinybird request = Some tinybirdResponse"

definition shortService :: "string \<Rightarrow> string list option" where
  "shortService request = Some [''1'', ''2'']"

definition downService :: "string \<Rightarrow> string list option" where
  "downService request = None"

definition personalSpec :: FeedSpec where
  "personalSpec = \<lparr>specUserId = Some ''u1'', specFeedId = Some ''1'', pageSize = 2, offset = 0\<rparr>"

section \<open>Auxiliary facts\<close>

lemma joinEnvs_keeps:
  "env' \<in> set (joinEnvs d ps js env) \<Longrightarrow> a \<notin> set (map joinAlias js) \<Longrightarrow> env' a = env a"
  by (induction js arbitrary: env) auto

lemma holds_append: "holds d ps env (ws @ vs) = (holds d ps env ws \<and> holds d ps env vs)"
  by (induction ws) auto

lemma selected_env:
  assumes "selected d b alias p" and "alias \<notin> set (map joinAlias (joins b))"
  shows "\<exists>env. env alias = Some p \<and> holds d (parameters b) env (wheres b)"
proof -
  from assms(1) obtain env where
    e: "env \<in> set (joinEnvs d (parameters b) (joins b) (Map.empty(alias \<mapsto> p)))"
    and h: "holds d (parameters b) env (wheres b)"
    by (auto simp: selected_def)
  from joinEnvs_keeps[OF e assms(2)] have "env alias = Some p" by simp
  with h show ?thesis by blast
qed

lemma joinWith_contains:
  "x \<in> set xs \<Longrightarrow> \<exists>pre post. joinWith sep xs = pre @ x @ post"
proof (induction sep xs rule: joinWith.induct)
  case (1 sep)
  then show ?case by simp
next
  case (2 sep y)
  then have "joinWith sep [y] = [] @ x @ []" by simp
  then show ?case by blast
next
  case (3 sep y z zs)
  show ?case
  proof (cases "x = y")
    case True
    then have "joinWith sep (y # z # zs) = [] @ x @ (sep @ joinWith sep (z # zs))" by simp
    then show ?thesis by blast
  next
    case False
    with 3 obtain pre post where "joinWith sep (z # zs) = pre @ x @ post" by auto
    then have "joinWith sep (y # z # zs) = (y @ sep @ pre) @ x @ post" by simp
    then show ?thesis by blast
  qed
qed

lemma parseLits_sentinel: "parseLits (CHR 0x27 # ''nosuchid'' @ [CHR 0x27]) = Some [''nosuchid'']"
  by (simp add: parseLits_def)

lemma in3_True: "in3 x vs = Some True \<longleftrightarrow> x \<noteq> None \<and> x \<in> set vs"
  by (auto simp: in3_def split: option.splits)

lemma queryRows_filter:
  "queryRows d ps env (Query sel tab al ws) rs =
     map (\<lambda>r. env(al \<mapsto> r)) (filter (\<lambda>r. holds d ps (env(al \<mapsto> r)) ws) rs)"
  by (induction rs) (simp_all del: fun_upd_apply)

lemma eq3_True: "eq3 a b = Some True \<longleftrightarrow> a \<noteq> None \<and> a = b"
  by (auto simp: eq3_def split: option.splits)

lemma whereTags_eq:
  "whereTags tags builder alias v =
     (Exists (Query SelOne ''PostKeyword'' ''pk''
        [InParams (Col (Bare ''pk'') (Bare ''keyword'')) v,
         EqCol (Col (Bare ''pk'') (Bare ''postId'')) (Col (Bare alias) (Bare ''id''))]),
      builder\<lparr>parameters := (parameters builder)(v \<mapsto> PList tags)\<rparr>)"
  by (simp add: whereTags_def Let_def subQuery_def select_def fromEntity_def whereCond_def
      andWhere_def getQuery_def adoptParameters_def)

lemma whereNotTags_eq:
  "whereNotTags tags builder alias =
     (Not (Exists (Query SelOne ''PostKeyword'' ''pk''
        [InParams (Col (Bare ''pk'') (Bare ''keyword'')) ''blockedTags'',
         EqCol (Col (Bare ''pk'') (Bare ''postId'')) (Col (Bare alias) (Bare ''id''))])),
      builder\<lparr>parameters := (parameters builder)(''blockedTags'' \<mapsto> PList tags)\<rparr>)"
  by (simp add: whereNotTags_def whereTags_eq)

lemma eq3_Some_True [simp]: "eq3 a (Some v) = Some True \<longleftrightarrow> a = Some v"
  by (auto simp: eq3_def split: option.splits)

lemma and3_True: "and3 a b = Some True \<longleftrightarrow> a = Some True \<and> b = Some True"
  by (auto simp: and3_def)

lemma or3_True: "or3 a b = Some True \<longleftrightarrow> a = Some True \<or> b = Some True"
  by (auto simp: or3_def)

lemma joinEnvs_append:
  "set (joinEnvs d ps (js @ js') env) =
     (\<Union>e \<in> set (joinEnvs d ps js env). set (joinEnvs d ps js' e))"
  by (induction js arbitrary: env) (simp_all del: joinRows.simps)

lemma whereTagsInFeed_eq:
  "whereTagsInFeed feedId builder alias =
     (Paren (Or (Not (Exists (Query (SelCol (Col (Bare ''feed'') (Bare ''tag''))) ''FeedTag'' ''feed''
                        [EqParam (Col (Bare ''feed'') (Bare ''feedId'')) ''feedId''])))
                (Exists (Query SelOne ''PostKeyword'' ''pk''
                   [InSub (Col (Bare ''pk'') (Bare ''keyword''))
                      (Query (SelCol (Col (Bare ''feed'') (Bare ''tag''))) ''FeedTag'' ''feed''
                         [EqParam (Col (Bare ''feed'') (Bare ''feedId'')) ''feedId'']),
                    EqCol (Col (Bare ''pk'') (Bare ''postId'')) (Col (Bare alias) (Bare ''id''))]))),
      builder\<lparr>parameters := (parameters builder)(''feedId'' \<mapsto> PStr feedId)\<rparr>)"
  by (simp add: whereTagsInFeed_def Let_def subQuery_def select_def fromEntity_def whereCond_def
      andWhere_def getQuery_def adoptParameters_def)

lemma feedTag_rows:
  "ps ''feedId'' = Some (PStr feedId) \<Longrightarrow>
   queryRows d ps env (Query sel ''FeedTag'' ''feed''
      [EqParam (Col (Bare ''feed'') (Bare ''feedId'')) ''feedId'']) (d ''FeedTag'') =
   map (\<lambda>r. env(''feed'' \<mapsto> r)) (findByFeedId d ''FeedTag'' feedId)"
  by (simp add: queryRows_filter findByFeedId_def)

lemma anonymousFeedBuilder_wheres:
  "wheres (anonymousFeedBuilder ctx filters builder alias) =
     wheres builder @
     (if hasLength (includeSources filters)
      then [InParams (Col (Bare alias) (Quoted ''sourceId'')) ''sources'']
      else if hasLength (excludeSources filters)
      then [NotInParams (Col (Bare alias) (Quoted ''sourceId'')) ''sources'']
      else []) @
     (if hasLength (includeTags filters)
      then [Exists (Query SelOne ''PostKeyword'' ''pk''
              [InParams (Col (Bare ''pk'') (Bare ''keyword'')) ''tags'',
               EqCol (Col (Bare ''pk'') (Bare ''postId'')) (Col (Bare alias) (Bare ''id''))])]
      else []) @
     (if hasLength (blockedTags filters)
      then [Not (Exists (Query SelOne ''PostKeyword'' ''pk''
              [InParams (Col (Bare ''pk'') (Bare ''keyword'')) ''blockedTags'',
               EqCol (Col (Bare ''pk'') (Bare ''postId'')) (Col (Bare alias) (Bare ''id''))]))]
      else [])"
  by (simp add: anonymousFeedBuilder_def Let_def andWhere_def andWhereFn_def whereTags_eq
      whereNotTags_eq)

lemma anonymousFeedBuilder_joins:
  "joins (anonymousFeedBuilder ctx filters builder alias) = joins builder"
  by (simp add: anonymousFeedBuilder_def Let_def andWhere_def andWhereFn_def whereTags_eq
      whereNotTags_eq)

lemma anonymousFeedBuilder_blockedTags:
  "hasLength (blockedTags filters) \<Longrightarrow>
   parameters (anonymousFeedBuilder ctx filters builder alias) ''blockedTags'' =
     Some (PList (listOf (blockedTags filters)))"
  by (simp add: anonymousFeedBuilder_def Let_def andWhere_def andWhereFn_def whereTags_eq
      whereNotTags_eq)

lemma applyFeedWhere_joins:
  "joins (applyFeedWhere ctx builder alias rh rb) =
     joins builder @
     (if truthy (userId ctx) \<and> rh then
        [Join LeftJoin ''HiddenPost'' ''hidden''
           (And (EqCol (Col (Bare ''hidden'') (Bare ''postId'')) (Col (Quoted alias) (Bare ''id'')))
                (EqParam (Col (Bare ''hidden'') (Bare ''userId'')) ''userId''))]
      else [])"
  by (simp add: applyFeedWhere_def Let_def subQuery_def fromEntity_def whereCond_def
      andWhere_def leftJoin_def getQuery_def adoptParameters_def)

lemma applyFeedWhere_wheres:
  "wheres (applyFeedWhere ctx builder alias rh rb) =
     wheres builder @
     [Exists (Query SelAll ''Source'' ''source''
        [EqLit (Col (Bare ''source'') (Bare ''active'')) ''true'',
         EqCol (Col (Bare ''source'') (Bare ''id'')) (Col (Quoted alias) (Quoted ''sourceId'')),
         EqLit (Col (Bare alias) (Bare ''deleted'')) ''false''])] @
     (if truthy (userId ctx) \<and> rh then [IsNull (Col (Bare ''hidden'') (Bare ''postId''))] else []) @
     (if rb then [EqLit (Col (Quoted alias) (Bare ''banned'')) ''FALSE''] else [])"
  by (simp add: applyFeedWhere_def Let_def subQuery_def fromEntity_def whereCond_def
      andWhere_def leftJoin_def getQuery_def adoptParameters_def)

lemma applyFeedWhere_parameters:
  "parameters (applyFeedWhere ctx builder alias rh rb) =
     (parameters builder)(''userId'' \<mapsto> paramOf (userId ctx))"
  by (simp add: applyFeedWhere_def Let_def subQuery_def fromEntity_def whereCond_def
      andWhere_def leftJoin_def getQuery_def adoptParameters_def)

lemma feedToFilters_example:
  "feedToFilters dbTags ''1'' =
     \<lparr>includeSources = None, excludeSources = Some [''a'', ''b''],
      includeTags = Some [''javascript'', ''golang''], blockedTags = Some [''python'', ''java'']\<rparr>"
  by (simp add: feedToFilters_def Let_def findByFeedId_def tagFilters_def colStr_def dbTags_def)

lemma page_sel:
  "pageSize (page n off) = n" "offset (page n off) = off"
  "specUserId (page n off) = None" "specFeedId (page n off) = None"
  by (simp_all add: page_def)

lemma anonKey_eq: "getPersonalizedFeedKey None None = anonKey"
  by (simp add: anonKey_def)

lemma anonymous_request:
  "rankingRequest ''token'' (page 2 off) None =
     ''/feed.json?token=token&page_size=2&fresh_page_size=1''"
  by (simp add: rankingRequest_def queryString_def queryParams_def userParam_def listParam_def
      fieldOf_def hasLength_def page_def freshPageSize_def digit_def)

lemma generate_fetch:
  assumes "needsFetch now spec
             (ranks st (getPersonalizedFeedKey (specUserId spec) (specFeedId spec)))
             (times st (getPersonalizedFeedKey (specUserId spec) (specFeedId spec)))"
    and "service (rankingRequest token spec (map_option (feedToFilters d) (specFeedId spec))) =
           Some resp"
  shows "generatePersonalizedFeed service token d now spec st =
           (let key = getPersonalizedFeedKey (specUserId spec) (specFeedId spec);
                merged = mergeFetched (ranks st key) resp
            in (Inr (if revalidates now spec (times st key) then slice spec resp
                     else slice spec merged),
                st\<lparr>calls := calls st @
                     [rankingRequest token spec (map_option (feedToFilters d) (specFeedId spec))],
                   ranks := (ranks st)(key := merged),
                   times := (times st)(key \<mapsto> now)\<rparr>))"
  using assms by (simp add: generatePersonalizedFeed_def Let_def)

lemma generate_cached:
  assumes "\<not> needsFetch now spec
             (ranks st (getPersonalizedFeedKey (specUserId spec) (specFeedId spec)))
             (times st (getPersonalizedFeedKey (specUserId spec) (specFeedId spec)))"
  shows "generatePersonalizedFeed service token d now spec st =
           (Inr (slice spec (ranks st (getPersonalizedFeedKey (specUserId spec) (specFeedId spec)))),
            st)"
  using assms by (simp add: generatePersonalizedFeed_def Let_def)

lemma anonKey_pages: "getPersonalizedFeedKey (specUserId (page n off)) (specFeedId (page n off)) = anonKey"
  by (simp add: page_def anonKey_def)

section \<open>Properties of the feed builders\<close>

text \<open>
  C10, as amended. With an empty id list \<^verbatim>\<open>fixedIdsFeedBuilder\<close> adds the condition
  \<open>alias.id IN ('nosuchid')\<close> and orders by \<open>array_position(array['nosuchid'], alias.id)\<close>:
  the text between the parentheses is a well-formed literal list, so the query does not
  fail. The condition is satisfied only by a post whose id is literally \<open>nosuchid\<close>; when
  no post has that id the feed is empty. (The main alias must not be reused by a join of
  the builder.)
\<close>

theorem fixedIds_empty_sentinel:
  assumes "alias \<notin> set (map joinAlias (joins builder))"
  shows "fixedIdsFeedBuilder ctx [] builder alias =
           builder\<lparr>wheres := wheres builder @
                      [InText (Col (Bare alias) (Bare ''id'')) (CHR 0x27 # ''nosuchid'' @ [CHR 0x27])],
                   orderBys := [''array_position(array['' @ CHR 0x27 # ''nosuchid'' @ CHR 0x27 #
                                ''], '' @ alias @ ''.id)'']\<rparr> \<and>
         render (InText (Col (Bare alias) (Bare ''id'')) (CHR 0x27 # ''nosuchid'' @ [CHR 0x27])) =
           alias @ ''.id IN ('nosuchid')'' \<and>
         parseLits (CHR 0x27 # ''nosuchid'' @ [CHR 0x27]) = Some [''nosuchid''] \<and>
         (\<forall>d p. selected d (fixedIdsFeedBuilder ctx [] builder alias) alias p \<longrightarrow>
                  p ''id'' = Some (VStr ''nosuchid''))"
proof -
  let ?c = "InText (Col (Bare alias) (Bare ''id'')) (CHR 0x27 # ''nosuchid'' @ [CHR 0x27])"
  have shape: "fixedIdsFeedBuilder ctx [] builder alias =
           builder\<lparr>wheres := wheres builder @ [?c],
                   orderBys := [''array_position(array['' @ CHR 0x27 # ''nosuchid'' @ CHR 0x27 #
                                ''], '' @ alias @ ''.id)'']\<rparr>"
    by (simp add: fixedIdsFeedBuilder_def idsStr_def andWhere_def orderBy_def)
  have rend: "render ?c = alias @ ''.id IN ('nosuchid')''"
    by simp
  have only: "p ''id'' = Some (VStr ''nosuchid'')"
    if sel: "selected d (fixedIdsFeedBuilder ctx [] builder alias) alias p" for d p
  proof -
    have "alias \<notin> set (map joinAlias (joins (fixedIdsFeedBuilder ctx [] builder alias)))"
      using assms by (simp add: shape)
    from selected_env[OF sel this] obtain env where
      env: "env alias = Some p"
      and h: "holds d (parameters builder) env (wheres builder @ [?c])"
      by (auto simp: shape)
    from h have "eval d (parameters builder) env ?c = Some True"
      by (simp add: holds_append)
    with env show ?thesis
      by (simp add: writtenThrough_def parseLits_def in3_True)
  qed
  from shape rend only parseLits_sentinel show ?thesis by blast
qed

theorem fixedIds_empty_sentinel_witness:
  "selected dbEx (fixedIdsFeedBuilder ctx0 [] b0 ''p'') ''p'' postNo \<and>
   postNo ''id'' = Some (VStr ''nosuchid'') \<and>
   \<not> selected dbEx (fixedIdsFeedBuilder ctx0 [] b0 ''p'') ''p'' post1"
proof -
  have a: "''p'' \<notin> set (map joinAlias (joins b0))" by (simp add: b0_def)
  have s: "selected dbEx (fixedIdsFeedBuilder ctx0 [] b0 ''p'') ''p'' postNo"
    by (simp add: selected_def fixedIdsFeedBuilder_def idsStr_def andWhere_def orderBy_def b0_def
        writtenThrough_def parseLits_def in3_def postNo_def mkPost_def)
  have n: "post1 ''id'' \<noteq> Some (VStr ''nosuchid'')"
    by (simp add: post1_def mkPost_def)
  from fixedIds_empty_sentinel[OF a, of ctx0] s n show ?thesis by blast
qed

text \<open>
  C10 as stated fails: the condition of the empty fixed-ids feed matches a post, the one
  whose id is \<open>nosuchid\<close>.
\<close>

theorem fixedIds_empty_matches_counterexample:
  "postNo \<in> set (dbEx ''Post'') \<and>
   selected dbEx (fixedIdsFeedBuilder ctx0 [] b0 ''p'') ''p'' postNo"
  by (simp add: selected_def fixedIdsFeedBuilder_def idsStr_def andWhere_def orderBy_def b0_def
      writtenThrough_def parseLits_def in3_def postNo_def mkPost_def dbEx_def)

text \<open>
  C5, as amended. \<^verbatim>\<open>fixedIdsFeedBuilder\<close> validates nothing and rejects nothing: for
  every non-empty id list it returns a builder, having wrapped each id in single quotes,
  joined them with commas and put that text, as it is, into the \<open>IN\<close> condition and into
  the \<open>array_position\<close> ordering that it hands to the query builder. Every id of the
  list, whatever it is, stands in that text between two single quotes, unchanged.
\<close>

theorem fixedIds_interpolates_verbatim:
  assumes "ids \<noteq> []"
  shows "fixedIdsFeedBuilder ctx ids builder alias =
           builder\<lparr>wheres := wheres builder @
                      [InText (Col (Bare alias) (Bare ''id''))
                         (joinWith '','' (map (\<lambda>i. CHR 0x27 # i @ [CHR 0x27]) ids))],
                   orderBys := [''array_position(array['' @
                                joinWith '','' (map (\<lambda>i. CHR 0x27 # i @ [CHR 0x27]) ids) @
                                ''], '' @ alias @ ''.id)'']\<rparr> \<and>
         (\<forall>i \<in> set ids. \<exists>pre post.
            joinWith '','' (map (\<lambda>i. CHR 0x27 # i @ [CHR 0x27]) ids) =
              pre @ (CHR 0x27 # i @ [CHR 0x27]) @ post)"
proof -
  have q: "quoteId = (\<lambda>i. CHR 0x27 # i @ [CHR 0x27])"
    by (rule ext) (simp add: quoteId_def)
  have shape: "fixedIdsFeedBuilder ctx ids builder alias =
           builder\<lparr>wheres := wheres builder @
                      [InText (Col (Bare alias) (Bare ''id'')) (joinWith '','' (map quoteId ids))],
                   orderBys := [''array_position(array['' @ joinWith '','' (map quoteId ids) @
                                ''], '' @ alias @ ''.id)'']\<rparr>"
    using assms by (simp add: fixedIdsFeedBuilder_def idsStr_def andWhere_def orderBy_def)
  have inside: "\<exists>pre post. joinWith '','' (map quoteId ids) = pre @ quoteId i @ post"
    if "i \<in> set ids" for i
    using that by (intro joinWith_contains) simp
  from shape inside show ?thesis unfolding q by blast
qed

theorem fixedIds_interpolates_verbatim_witness:
  "fixedIdsFeedBuilder ctx0 [''a'', ''b''] b0 ''p'' =
     b0\<lparr>wheres := [InText (Col (Bare ''p'') (Bare ''id'')) (CHR 0x27 # ''a','b'' @ [CHR 0x27])],
        orderBys := [''array_position(array['' @ CHR 0x27 # ''a','b'' @ CHR 0x27 # ''], p.id)'']\<rparr> \<and>
   (\<exists>pre post. CHR 0x27 # ''a','b'' @ [CHR 0x27] = pre @ (CHR 0x27 # ''b'' @ [CHR 0x27]) @ post)"
proof -
  have n: "[''a'', ''b''] \<noteq> ([] :: string list)" by simp
  have m: "''b'' \<in> set [''a'', ''b'']" by simp
  note inst = fixedIds_interpolates_verbatim[OF n, of ctx0 b0 "''p''"]
  from inst[THEN conjunct1]
  have a: "fixedIdsFeedBuilder ctx0 [''a'', ''b''] b0 ''p'' =
     b0\<lparr>wheres := [InText (Col (Bare ''p'') (Bare ''id'')) (CHR 0x27 # ''a','b'' @ [CHR 0x27])],
        orderBys := [''array_position(array['' @ CHR 0x27 # ''a','b'' @ CHR 0x27 # ''], p.id)'']\<rparr>"
    by (simp add: b0_def)
  from inst[THEN conjunct2, rule_format, OF m]
  have b: "\<exists>pre post. CHR 0x27 # ''a','b'' @ [CHR 0x27] = pre @ (CHR 0x27 # ''b'' @ [CHR 0x27]) @ post"
    by simp
  from a b show ?thesis by blast
qed

text \<open>
  C5 as stated fails: an id that is not an identifier is not rejected. The builder is
  returned, and the id stands in the condition and in the ordering as it was given.
\<close>

theorem fixedIds_unvalidated_counterexample:
  "map render (wheres (fixedIdsFeedBuilder ctx0 [''x') OR ('1'='1''] b0 ''p'')) =
     [''p.id IN ('x') OR ('1'='1')''] \<and>
   orderBys (fixedIdsFeedBuilder ctx0 [''x') OR ('1'='1''] b0 ''p'') =
     [''array_position(array['x') OR ('1'='1'], p.id)'']"
  by (simp add: fixedIdsFeedBuilder_def idsStr_def quoteId_def andWhere_def orderBy_def b0_def)

text \<open>
  C7, as amended. \<^verbatim>\<open>whereTags\<close> builds an existence sub-query over the post-keyword
  table, correlated with the post by \<open>pk.postId = alias.id\<close>, and \<^verbatim>\<open>whereNotTags\<close> its
  negation (with the tags bound to the parameter \<open>blockedTags\<close>); neither adds a join.
  For the same non-empty list of tags, whatever the database and the post, the database
  accepts both conditions and exactly one of the two is true.
\<close>

theorem whereTags_whereNotTags_complement:
  assumes "tags \<noteq> []"
  shows "fst (whereTags tags builder alias v) =
           Exists (Query SelOne ''PostKeyword'' ''pk''
             [InParams (Col (Bare ''pk'') (Bare ''keyword'')) v,
              EqCol (Col (Bare ''pk'') (Bare ''postId'')) (Col (Bare alias) (Bare ''id''))]) \<and>
         fst (whereNotTags tags builder alias) =
           Not (Exists (Query SelOne ''PostKeyword'' ''pk''
             [InParams (Col (Bare ''pk'') (Bare ''keyword'')) ''blockedTags'',
              EqCol (Col (Bare ''pk'') (Bare ''postId'')) (Col (Bare alias) (Bare ''id''))])) \<and>
         joins (snd (whereTags tags builder alias v)) = joins builder \<and>
         joins (snd (whereNotTags tags builder alias)) = joins builder \<and>
         execute d (parameters (snd (whereTags tags builder alias v))) env
           (fst (whereTags tags builder alias v)) \<noteq> SyntaxError \<and>
         execute d (parameters (snd (whereNotTags tags builder alias))) env
           (fst (whereNotTags tags builder alias)) \<noteq> SyntaxError \<and>
         ((execute d (parameters (snd (whereTags tags builder alias v))) env
             (fst (whereTags tags builder alias v)) = Truth (Some True)) \<noteq>
          (execute d (parameters (snd (whereNotTags tags builder alias))) env
             (fst (whereNotTags tags builder alias)) = Truth (Some True)))"
  using assms
  by (simp add: whereTags_eq whereNotTags_eq execute_def queryRows_filter not3_def)

theorem whereTags_whereNotTags_complement_witness:
  "execute dbTags (parameters (snd (whereTags [''javascript''] b0 ''p'' ''tags''))) [''p'' \<mapsto> post1]
     (fst (whereTags [''javascript''] b0 ''p'' ''tags'')) = Truth (Some True) \<and>
   execute dbTags (parameters (snd (whereNotTags [''javascript''] b0 ''p''))) [''p'' \<mapsto> post1]
     (fst (whereNotTags [''javascript''] b0 ''p'')) \<noteq> Truth (Some True) \<and>
   execute dbTags (parameters (snd (whereNotTags [''javascript''] b0 ''p''))) [''p'' \<mapsto> post1]
     (fst (whereNotTags [''javascript''] b0 ''p'')) \<noteq> SyntaxError"
proof -
  have n: "[''javascript''] \<noteq> ([] :: string list)" by simp
  have "execute dbTags (parameters (snd (whereTags [''javascript''] b0 ''p'' ''tags''))) [''p'' \<mapsto> post1]
     (fst (whereTags [''javascript''] b0 ''p'' ''tags'')) = Truth (Some True)"
    by (simp add: whereTags_eq execute_def dbTags_def kw_def post1_def mkPost_def in3_def eq3_def)
  with whereTags_whereNotTags_complement[OF n, of b0 "''p''" "''tags''" dbTags "[''p'' \<mapsto> post1]"]
  show ?thesis by blast
qed

text \<open>
  C7 as stated fails for the empty tag list: each of the two conditions then holds
  \<open>pk.keyword IN ()\<close>, which the database rejects, so neither of them is true.
\<close>

theorem whereTags_empty_list_counterexample:
  "execute dbTags (parameters (snd (whereTags [] b0 ''p'' ''tags''))) [''p'' \<mapsto> post1]
     (fst (whereTags [] b0 ''p'' ''tags'')) = SyntaxError \<and>
   execute dbTags (parameters (snd (whereNotTags [] b0 ''p''))) [''p'' \<mapsto> post1]
     (fst (whereNotTags [] b0 ''p'')) = SyntaxError"
  by (simp add: whereTags_eq whereNotTags_eq execute_def)

text \<open>
  C8. The condition built by \<^verbatim>\<open>whereTagsInFeed\<close> is true for a post exactly when the
  feed has no tag row at all, or some keyword of the post is the tag of one of the feed's
  tag rows. In particular it is true for every post when the feed has no tag rows.
  (The post is the row bound to the alias, and the alias is not \<open>pk\<close>, the alias
  of the sub-query.)
\<close>

theorem whereTagsInFeed_open_policy:
  assumes "alias \<noteq> ''pk''" and "env alias = Some p"
  shows "((eval d (parameters (snd (whereTagsInFeed feedId builder alias))) env
            (fst (whereTagsInFeed feedId builder alias)) = Some True) \<longleftrightarrow>
          (findByFeedId d ''FeedTag'' feedId = [] \<or>
           (\<exists>k \<in> set (d ''PostKeyword''). \<exists>f \<in> set (findByFeedId d ''FeedTag'' feedId).
              k ''postId'' \<noteq> None \<and> k ''postId'' = p ''id'' \<and>
              k ''keyword'' \<noteq> None \<and> k ''keyword'' = f ''tag''))) \<and>
         (findByFeedId d ''FeedTag'' feedId = [] \<longrightarrow>
            eval d (parameters (snd (whereTagsInFeed feedId builder alias))) env
              (fst (whereTagsInFeed feedId builder alias)) = Some True)"
proof -
  let ?ps = "(parameters builder)(''feedId'' \<mapsto> PStr feedId)"
  have ps: "?ps ''feedId'' = Some (PStr feedId)" by simp
  have inner: "\<And>e sel. queryRows d ?ps e (Query sel ''FeedTag'' ''feed''
      [EqParam (Col (Bare ''feed'') (Bare ''feedId'')) ''feedId'']) (d ''FeedTag'') =
   map (\<lambda>r. e(''feed'' \<mapsto> r)) (findByFeedId d ''FeedTag'' feedId)"
    using feedTag_rows[where ps = ?ps and feedId = feedId and d = d, OF ps] by blast
  show ?thesis
    using assms
    by (auto simp add: whereTagsInFeed_eq inner queryRows_filter or3_True not3_def in3_True
        eq3_True filter_empty_conv image_iff comp_def findByFeedId_def)
qed


theorem whereTagsInFeed_open_policy_witness:
  "eval dbTags (parameters (snd (whereTagsInFeed ''1'' b0 ''p''))) [''p'' \<mapsto> post1]
     (fst (whereTagsInFeed ''1'' b0 ''p'')) = Some True \<and>
   findByFeedId dbTags ''FeedTag'' ''1'' \<noteq> [] \<and>
   eval dbTags (parameters (snd (whereTagsInFeed ''2'' b0 ''p''))) [''p'' \<mapsto> postNo]
     (fst (whereTagsInFeed ''2'' b0 ''p'')) = Some True \<and>
   eval dbTags (parameters (snd (whereTagsInFeed ''1'' b0 ''p''))) [''p'' \<mapsto> postNo]
     (fst (whereTagsInFeed ''1'' b0 ''p'')) \<noteq> Some True"
proof -
  have a: "''p'' \<noteq> ''pk''" by simp
  have e1: "[''p'' \<mapsto> post1] ''p'' = Some post1" by simp
  have e2: "[''p'' \<mapsto> postNo] ''p'' = Some postNo" by simp
  have f1: "findByFeedId dbTags ''FeedTag'' ''1'' \<noteq> []"
    by (simp add: findByFeedId_def dbTags_def)
  have f2: "findByFeedId dbTags ''FeedTag'' ''2'' = []"
    by (simp add: findByFeedId_def dbTags_def)
  have k1: "\<exists>k \<in> set (dbTags ''PostKeyword''). \<exists>f \<in> set (findByFeedId dbTags ''FeedTag'' ''1'').
              k ''postId'' \<noteq> None \<and> k ''postId'' = post1 ''id'' \<and>
              k ''keyword'' \<noteq> None \<and> k ''keyword'' = f ''tag''"
    by (simp add: findByFeedId_def dbTags_def kw_def post1_def mkPost_def)
  have k2: "\<not> (\<exists>k \<in> set (dbTags ''PostKeyword''). \<exists>f \<in> set (findByFeedId dbTags ''FeedTag'' ''1'').
              k ''postId'' \<noteq> None \<and> k ''postId'' = postNo ''id'' \<and>
              k ''keyword'' \<noteq> None \<and> k ''keyword'' = f ''tag'')"
    by (simp add: findByFeedId_def dbTags_def kw_def postNo_def mkPost_def)
  from whereTagsInFeed_open_policy[of "''p''" "[''p'' \<mapsto> post1]" post1 dbTags "''1''" b0, OF a e1]
       whereTagsInFeed_open_policy[of "''p''" "[''p'' \<mapsto> postNo]" postNo dbTags "''2''" b0, OF a e2]
       whereTagsInFeed_open_policy[of "''p''" "[''p'' \<mapsto> postNo]" postNo dbTags "''1''" b0, OF a e2]
       f1 f2 k1 k2
  show ?thesis by blast
qed

text \<open>
  C6, as amended. \<^verbatim>\<open>anonymousFeedBuilder\<close> adds, in this order: for the sources the
  inclusion condition when \<open>includeSources\<close> is not empty, else the exclusion condition
  when \<open>excludeSources\<close> is not empty (so with sources to include, \<open>excludeSources\<close> is
  ignored); the \<^verbatim>\<open>whereTags\<close> condition when \<open>includeTags\<close> is not empty; and the
  \<^verbatim>\<open>whereNotTags\<close> condition when \<open>blockedTags\<close> is not empty, whether or not tags are
  included.
\<close>

theorem anonymousFeedBuilder_filters:
  "wheres (anonymousFeedBuilder ctx filters builder alias) =
     wheres builder @
     (if hasLength (includeSources filters)
      then [InParams (Col (Bare alias) (Quoted ''sourceId'')) ''sources'']
      else if hasLength (excludeSources filters)
      then [NotInParams (Col (Bare alias) (Quoted ''sourceId'')) ''sources'']
      else []) @
     (if hasLength (includeTags filters)
      then [fst (whereTags (listOf (includeTags filters)) builder alias ''tags'')]
      else []) @
     (if hasLength (blockedTags filters)
      then [fst (whereNotTags (listOf (blockedTags filters)) builder alias)]
      else []) \<and>
   (hasLength (includeSources filters) \<longrightarrow>
      anonymousFeedBuilder ctx filters builder alias =
      anonymousFeedBuilder ctx (filters\<lparr>excludeSources := None\<rparr>) builder alias) \<and>
   (hasLength (blockedTags filters) \<longrightarrow>
      parameters (anonymousFeedBuilder ctx filters builder alias) ''blockedTags'' =
        Some (PList (listOf (blockedTags filters))))"
proof -
  have w: "wheres (anonymousFeedBuilder ctx filters builder alias) =
     wheres builder @
     (if hasLength (includeSources filters)
      then [InParams (Col (Bare alias) (Quoted ''sourceId'')) ''sources'']
      else if hasLength (excludeSources filters)
      then [NotInParams (Col (Bare alias) (Quoted ''sourceId'')) ''sources'']
      else []) @
     (if hasLength (includeTags filters)
      then [fst (whereTags (listOf (includeTags filters)) builder alias ''tags'')]
      else []) @
     (if hasLength (blockedTags filters)
      then [fst (whereNotTags (listOf (blockedTags filters)) builder alias)]
      else [])"
    by (simp add: anonymousFeedBuilder_wheres whereTags_eq whereNotTags_eq)
  have s: "anonymousFeedBuilder ctx filters builder alias =
      anonymousFeedBuilder ctx (filters\<lparr>excludeSources := None\<rparr>) builder alias"
    if "hasLength (includeSources filters)"
    using that by (simp add: anonymousFeedBuilder_def Let_def)
  from w s anonymousFeedBuilder_blockedTags show ?thesis by blast
qed

theorem anonymousFeedBuilder_filters_witness:
  "wheres (anonymousFeedBuilder ctx0 fSources b0 ''p'') =
     [InParams (Col (Bare ''p'') (Quoted ''sourceId'')) ''sources'',
      Not (Exists (Query SelOne ''PostKeyword'' ''pk''
              [InParams (Col (Bare ''pk'') (Bare ''keyword'')) ''blockedTags'',
               EqCol (Col (Bare ''pk'') (Bare ''postId'')) (Col (Bare ''p'') (Bare ''id''))]))] \<and>
   anonymousFeedBuilder ctx0 fSources b0 ''p'' =
     anonymousFeedBuilder ctx0 (fSources\<lparr>excludeSources := None\<rparr>) b0 ''p'' \<and>
   parameters (anonymousFeedBuilder ctx0 fSources b0 ''p'') ''blockedTags'' = Some (PList [''java''])"
proof -
  have i: "hasLength (includeSources fSources)" by (simp add: hasLength_def fSources_def)
  have t: "\<not> hasLength (includeTags fSources)" by (simp add: hasLength_def fSources_def)
  have b: "hasLength (blockedTags fSources)" by (simp add: hasLength_def fSources_def)
  have l: "listOf (blockedTags fSources) = [''java'']" by (simp add: listOf_def fSources_def)
  have w: "wheres b0 = []" by (simp add: b0_def)
  note inst = anonymousFeedBuilder_filters[of ctx0 fSources b0 "''p''"]
  from inst[THEN conjunct1] i t b l w
  have c1: "wheres (anonymousFeedBuilder ctx0 fSources b0 ''p'') =
     [InParams (Col (Bare ''p'') (Quoted ''sourceId'')) ''sources'',
      Not (Exists (Query SelOne ''PostKeyword'' ''pk''
              [InParams (Col (Bare ''pk'') (Bare ''keyword'')) ''blockedTags'',
               EqCol (Col (Bare ''pk'') (Bare ''postId'')) (Col (Bare ''p'') (Bare ''id''))]))]"
    by (simp add: whereNotTags_eq)
  from inst[THEN conjunct2, THEN conjunct1] i
  have c2: "anonymousFeedBuilder ctx0 fSources b0 ''p'' =
     anonymousFeedBuilder ctx0 (fSources\<lparr>excludeSources := None\<rparr>) b0 ''p''"
    by blast
  from inst[THEN conjunct2, THEN conjunct2] b l
  have c3: "parameters (anonymousFeedBuilder ctx0 fSources b0 ''p'') ''blockedTags'' =
     Some (PList [''java''])"
    by simp
  from c1 c2 c3 show ?thesis by blast
qed

text \<open>
  C6 as stated fails for tags: with \<open>javascript\<close> included and \<open>python\<close> blocked, a post
  that carries both keywords is not selected, though it is once the blocked tags are
  taken away. The blocked-tag filter is applied next to the include-tag filter.
\<close>

theorem anonymousFeedBuilder_blocked_counterexample:
  "hasLength (includeTags fBoth) \<and>
   \<not> selected dbTags (anonymousFeedBuilder ctx0 fBoth b0 ''p'') ''p'' post1 \<and>
   selected dbTags (anonymousFeedBuilder ctx0 (fBoth\<lparr>blockedTags := None\<rparr>) b0 ''p'') ''p'' post1"
  by (simp add: selected_def anonymousFeedBuilder_wheres anonymousFeedBuilder_joins
      anonymousFeedBuilder_def Let_def andWhereFn_def whereTags_eq whereNotTags_eq
      fBoth_def hasLength_def listOf_def b0_def dbTags_def kw_def post1_def mkPost_def
      in3_def eq3_def not3_def)


text \<open>
  C9. Whatever query the feed variant has built, a post selected after \<^verbatim>\<open>applyFeedWhere\<close>
  has an active source, is not deleted, is not banned when \<open>removeBannedPosts\<close> holds, and,
  when \<open>removeHiddenPosts\<close> holds and the context has a user, is not hidden by that user.
  (The main alias is not reused by a join of the builder and is neither \<open>source\<close> nor
  \<open>hidden\<close>, the aliases \<^verbatim>\<open>applyFeedWhere\<close> introduces.)
\<close>

theorem applyFeedWhere_exclusions:
  assumes fresh: "alias \<notin> set (map joinAlias (joins builder))"
    and ns: "alias \<noteq> ''source''"
    and nh: "alias \<noteq> ''hidden''"
    and sel: "selected d (applyFeedWhere ctx builder alias removeHiddenPosts removeBannedPosts) alias p"
  shows "(\<exists>s \<in> set (d ''Source'').
            s ''active'' = Some (VBool True) \<and> s ''id'' \<noteq> None \<and> s ''id'' = p ''sourceId'') \<and>
         p ''deleted'' = Some (VBool False) \<and>
         (removeBannedPosts \<longrightarrow> p ''banned'' = Some (VBool False)) \<and>
         (removeHiddenPosts \<longrightarrow>
            (\<forall>u. userId ctx = Some u \<longrightarrow> u \<noteq> [] \<longrightarrow>
               \<not> (\<exists>h \<in> set (d ''HiddenPost'').
                      h ''postId'' \<noteq> None \<and> h ''postId'' = p ''id'' \<and>
                      h ''userId'' = Some (VStr u))))"
proof -
  let ?r = "applyFeedWhere ctx builder alias removeHiddenPosts removeBannedPosts"
  let ?ps = "(parameters builder)(''userId'' \<mapsto> paramOf (userId ctx))"
  let ?hid = "truthy (userId ctx) \<and> removeHiddenPosts"
  let ?on = "And (EqCol (Col (Bare ''hidden'') (Bare ''postId'')) (Col (Quoted alias) (Bare ''id'')))
                 (EqParam (Col (Bare ''hidden'') (Bare ''userId'')) ''userId'')"
  let ?J = "Join LeftJoin ''HiddenPost'' ''hidden'' ?on"
  let ?src = "Exists (Query SelAll ''Source'' ''source''
        [EqLit (Col (Bare ''source'') (Bare ''active'')) ''true'',
         EqCol (Col (Bare ''source'') (Bare ''id'')) (Col (Quoted alias) (Quoted ''sourceId'')),
         EqLit (Col (Bare alias) (Bare ''deleted'')) ''false''])"
  from sel obtain env where
    env: "env \<in> set (joinEnvs d ?ps (joins builder @ (if ?hid then [?J] else []))
                    (Map.empty(alias \<mapsto> p)))"
    and hold: "holds d ?ps env (wheres ?r)"
    by (auto simp: selected_def applyFeedWhere_joins applyFeedWhere_parameters)
  from env obtain e0 where
    e0: "e0 \<in> set (joinEnvs d ?ps (joins builder) (Map.empty(alias \<mapsto> p)))"
    and e1: "env \<in> set (joinEnvs d ?ps (if ?hid then [?J] else []) e0)"
    unfolding joinEnvs_append by blast
  from joinEnvs_keeps[OF e0 fresh] have e0p: "e0 alias = Some p" by simp
  have envp: "env alias = Some p"
  proof (cases ?hid)
    case True
    with e1 have "env \<in> set (joinEnvs d ?ps [?J] e0)" by simp
    from joinEnvs_keeps[OF this, of "alias"] nh e0p show ?thesis by simp
  next
    case False
    with e1 e0p show ?thesis by simp
  qed
  from hold have hsrc: "eval d ?ps env ?src = Some True"
    by (simp add: applyFeedWhere_wheres holds_append)
  from hsrc envp ns have src:
    "\<exists>s \<in> set (d ''Source'').
        s ''active'' = Some (VBool True) \<and> s ''id'' \<noteq> None \<and> s ''id'' = p ''sourceId''"
    by (auto simp: queryRows_filter filter_empty_conv eq3_True)
  from hsrc envp ns have del: "p ''deleted'' = Some (VBool False)"
    by (auto simp: queryRows_filter filter_empty_conv eq3_True)
  have ban: "p ''banned'' = Some (VBool False)" if removeBannedPosts
  proof -
    from hold that have "eval d ?ps env (EqLit (Col (Quoted alias) (Bare ''banned'')) ''FALSE'') = Some True"
      by (simp add: applyFeedWhere_wheres holds_append)
    with envp show ?thesis by (simp add: eq3_True)
  qed
  have hid: "\<not> (\<exists>h \<in> set (d ''HiddenPost'').
                 h ''postId'' \<noteq> None \<and> h ''postId'' = p ''id'' \<and> h ''userId'' = Some (VStr u))"
    if rh: removeHiddenPosts and u: "userId ctx = Some u" and ne: "u \<noteq> []" for u
  proof
    assume "\<exists>h \<in> set (d ''HiddenPost'').
              h ''postId'' \<noteq> None \<and> h ''postId'' = p ''id'' \<and> h ''userId'' = Some (VStr u)"
    then obtain h where h: "h \<in> set (d ''HiddenPost'')" and hp: "h ''postId'' \<noteq> None"
      and hpp: "h ''postId'' = p ''id''" and hu: "h ''userId'' = Some (VStr u)"
      by blast
    from rh u ne have hidT: ?hid by (simp add: truthy_def)
    have psu: "?ps ''userId'' = Some (PStr u)" using u by (simp add: paramOf_def)
    from h hp hpp hu e0p nh psu have match: "eval d ?ps (e0(''hidden'' \<mapsto> h)) ?on = Some True"
      by (simp add: and3_True eq3_True)
    let ?ms = "filter (\<lambda>r. eval d ?ps (e0(''hidden'' \<mapsto> r)) ?on = Some True) (d ''HiddenPost'')"
    from h match have msne: "?ms \<noteq> []"
      by (auto simp: filter_empty_conv)
    from e1 hidT msne obtain r where r: "r \<in> set ?ms" and envr: "env = e0(''hidden'' \<mapsto> r)"
      by (auto simp: Let_def simp del: eval.simps)
    from r have "eval d ?ps (e0(''hidden'' \<mapsto> r)) ?on = Some True" by simp
    with e0p nh have rp: "r ''postId'' \<noteq> None"
      by (auto simp: and3_True eq3_True)
    from hold hidT have "eval d ?ps env (IsNull (Col (Bare ''hidden'') (Bare ''postId''))) = Some True"
      by (simp add: applyFeedWhere_wheres holds_append)
    with envr have "r ''postId'' = None" by simp
    with rp show False by contradiction
  qed
  from src del ban hid show ?thesis by blast
qed

theorem applyFeedWhere_exclusions_witness:
  "selected dbFeed (applyFeedWhere ctxU b0 ''p'' True True) ''p'' post1 \<and>
   (\<exists>s \<in> set (dbFeed ''Source'').
       s ''active'' = Some (VBool True) \<and> s ''id'' \<noteq> None \<and> s ''id'' = post1 ''sourceId'') \<and>
   post1 ''deleted'' = Some (VBool False) \<and> post1 ''banned'' = Some (VBool False) \<and>
   \<not> selected dbFeed (applyFeedWhere ctxU b0 ''p'' True True) ''p'' post5"
proof -
  have fresh: "''p'' \<notin> set (map joinAlias (joins b0))" by (simp add: b0_def)
  have ns: "''p'' \<noteq> ''source''" by simp
  have nh: "''p'' \<noteq> ''hidden''" by simp
  have sel: "selected dbFeed (applyFeedWhere ctxU b0 ''p'' True True) ''p'' post1"
    by (simp add: selected_def applyFeedWhere_joins applyFeedWhere_wheres
        applyFeedWhere_parameters ctxU_def b0_def truthy_def paramOf_def dbFeed_def
        post1_def post5_def mkPost_def eq3_def and3_def nullRow_def)
  have u: "userId ctxU = Some ''u1''" by (simp add: ctxU_def)
  have hidden5: "\<exists>h \<in> set (dbFeed ''HiddenPost'').
      h ''postId'' \<noteq> None \<and> h ''postId'' = post5 ''id'' \<and> h ''userId'' = Some (VStr ''u1'')"
    by (simp add: dbFeed_def post5_def mkPost_def)
  have not5: "\<not> selected dbFeed (applyFeedWhere ctxU b0 ''p'' True True) ''p'' post5"
  proof
    assume s5: "selected dbFeed (applyFeedWhere ctxU b0 ''p'' True True) ''p'' post5"
    from applyFeedWhere_exclusions[OF fresh ns nh s5] u hidden5 show False by auto
  qed
  from applyFeedWhere_exclusions[OF fresh ns nh sel] sel not5 show ?thesis by blast
qed

section \<open>Properties of the personalized feed cache\<close>

text \<open>
  The theorems of this section are about the definitions modelled from the specification
  (\<^verbatim>\<open>generatePersonalizedFeed\<close>, \<^verbatim>\<open>rankingRequest\<close>); their witnesses run the scenarios
  of \<^verbatim>\<open>__tests__/personalizedFeed.ts\<close>.
\<close>

text \<open>
  C4. The request to the ranking service carries its parameters in the fixed order
  \<open>token, page_size, fresh_page_size, user_id, allowed_tags, blocked_tags, blocked_sources\<close>:
  the first three always, \<open>user_id\<close> when there is a user, and each list parameter,
  comma-joined, when its list is there and not empty; a parameter that is left out does
  not appear at all. The request is \<open>/feed.json?\<close> followed by the \<open>key=value\<close> pairs
  joined by \<open>&\<close>.
\<close>

theorem rankingRequest_parameters:
  "map fst (queryParams token n m uid filters) =
     filter (\<lambda>k. k \<in> {''token'', ''page_size'', ''fresh_page_size''} \<or>
                 (k = ''user_id'' \<and> truthy uid) \<or>
                 (k = ''allowed_tags'' \<and> hasLength (fieldOf includeTags filters)) \<or>
                 (k = ''blocked_tags'' \<and> hasLength (fieldOf blockedTags filters)) \<or>
                 (k = ''blocked_sources'' \<and> hasLength (fieldOf excludeSources filters)))
       fixedOrder \<and>
   map_of (queryParams token n m uid filters) ''token'' = Some token \<and>
   map_of (queryParams token n m uid filters) ''page_size'' = Some (showNat n) \<and>
   map_of (queryParams token n m uid filters) ''fresh_page_size'' = Some (showNat m) \<and>
   map_of (queryParams token n m uid filters) ''user_id'' = (if truthy uid then uid else None) \<and>
   map_of (queryParams token n m uid filters) ''allowed_tags'' =
     (if hasLength (fieldOf includeTags filters)
      then Some (joinWith '','' (listOf (fieldOf includeTags filters))) else None) \<and>
   map_of (queryParams token n m uid filters) ''blocked_tags'' =
     (if hasLength (fieldOf blockedTags filters)
      then Some (joinWith '','' (listOf (fieldOf blockedTags filters))) else None) \<and>
   map_of (queryParams token n m uid filters) ''blocked_sources'' =
     (if hasLength (fieldOf excludeSources filters)
      then Some (joinWith '','' (listOf (fieldOf excludeSources filters))) else None) \<and>
   rankingRequest token spec filters =
     ''/feed.json?'' @
     joinWith ''&'' (map (\<lambda>(k, v). k @ ''='' @ v)
       (queryParams token (pageSize spec) 1 (specUserId spec) filters))"
proof -
  have keys: "map fst (queryParams token n m uid filters) =
     filter (\<lambda>k. k \<in> {''token'', ''page_size'', ''fresh_page_size''} \<or>
                 (k = ''user_id'' \<and> truthy uid) \<or>
                 (k = ''allowed_tags'' \<and> hasLength (fieldOf includeTags filters)) \<or>
                 (k = ''blocked_tags'' \<and> hasLength (fieldOf blockedTags filters)) \<or>
                 (k = ''blocked_sources'' \<and> hasLength (fieldOf excludeSources filters)))
       fixedOrder"
    by (simp add: queryParams_def userParam_def listParam_def fixedOrder_def truthy_def
        split: option.splits)
  have vals:
    "map_of (queryParams token n m uid filters) ''token'' = Some token"
    "map_of (queryParams token n m uid filters) ''page_size'' = Some (showNat n)"
    "map_of (queryParams token n m uid filters) ''fresh_page_size'' = Some (showNat m)"
    "map_of (queryParams token n m uid filters) ''user_id'' = (if truthy uid then uid else None)"
    "map_of (queryParams token n m uid filters) ''allowed_tags'' =
       (if hasLength (fieldOf includeTags filters)
        then Some (joinWith '','' (listOf (fieldOf includeTags filters))) else None)"
    "map_of (queryParams token n m uid filters) ''blocked_tags'' =
       (if hasLength (fieldOf blockedTags filters)
        then Some (joinWith '','' (listOf (fieldOf blockedTags filters))) else None)"
    "map_of (queryParams token n m uid filters) ''blocked_sources'' =
       (if hasLength (fieldOf excludeSources filters)
        then Some (joinWith '','' (listOf (fieldOf excludeSources filters))) else None)"
    by (simp_all add: queryParams_def userParam_def listParam_def truthy_def map_add_def
        split: option.splits)
  have req: "rankingRequest token spec filters =
     ''/feed.json?'' @
     joinWith ''&'' (map (\<lambda>(k, v). k @ ''='' @ v)
       (queryParams token (pageSize spec) 1 (specUserId spec) filters))"
    by (simp add: rankingRequest_def queryString_def freshPageSize_def)
  from keys vals req show ?thesis by blast
qed

theorem rankingRequest_parameters_witness:
  "map fst (queryParams ''token'' 2 1 (Some ''u1'') (Some (feedToFilters dbTags ''1''))) =
     [''token'', ''page_size'', ''fresh_page_size'', ''user_id'', ''allowed_tags'',
      ''blocked_tags'', ''blocked_sources''] \<and>
   map fst (queryParams ''token'' 2 1 None None) = [''token'', ''page_size'', ''fresh_page_size''] \<and>
   rankingRequest ''token'' personalSpec (Some (feedToFilters dbTags ''1'')) =
     ''/feed.json?token=token&page_size=2&fresh_page_size=1&user_id=u1&allowed_tags=javascript,golang&blocked_tags=python,java&blocked_sources=a,b'' \<and>
   rankingRequest ''token'' (page 2 0) None =
     ''/feed.json?token=token&page_size=2&fresh_page_size=1''"
proof -
  note inst = rankingRequest_parameters[of "''token''" 2 1 "Some ''u1''"
      "Some (feedToFilters dbTags ''1'')" personalSpec]
  have k1: "map fst (queryParams ''token'' 2 1 (Some ''u1'') (Some (feedToFilters dbTags ''1''))) =
     [''token'', ''page_size'', ''fresh_page_size'', ''user_id'', ''allowed_tags'',
      ''blocked_tags'', ''blocked_sources'']"
    using inst[THEN conjunct1]
    by (simp add: feedToFilters_example fieldOf_def hasLength_def truthy_def fixedOrder_def)
  have k2: "map fst (queryParams ''token'' 2 1 None None) =
     [''token'', ''page_size'', ''fresh_page_size'']"
    by (simp add: queryParams_def userParam_def listParam_def fieldOf_def hasLength_def)
  have r1: "rankingRequest ''token'' personalSpec (Some (feedToFilters dbTags ''1'')) =
     ''/feed.json?token=token&page_size=2&fresh_page_size=1&user_id=u1&allowed_tags=javascript,golang&blocked_tags=python,java&blocked_sources=a,b''"
    by (simp add: rankingRequest_def queryString_def queryParams_def userParam_def listParam_def
        fieldOf_def hasLength_def listOf_def feedToFilters_example personalSpec_def
        freshPageSize_def digit_def)
  have r2: "rankingRequest ''token'' (page 2 0) None =
     ''/feed.json?token=token&page_size=2&fresh_page_size=1''"
    by (simp add: rankingRequest_def queryString_def queryParams_def userParam_def listParam_def
        fieldOf_def hasLength_def page_def freshPageSize_def digit_def)
  from k1 k2 r1 r2 show ?thesis by blast
qed

text \<open>
  C2. When the key has a timestamp that is not older than the threshold and the cached
  ids cover the requested range, the feed is the slice of the cached ids and the state is
  unchanged: no request is sent. This holds for every ranking service, so also for one
  that is down.
\<close>

theorem fresh_cache_served_without_fetch:
  assumes "times st (getPersonalizedFeedKey (specUserId spec) (specFeedId spec)) = Some ts"
    and "\<not> isStale now ts"
    and "offset spec + pageSize spec
           \<le> length (ranks st (getPersonalizedFeedKey (specUserId spec) (specFeedId spec)))"
  shows "generatePersonalizedFeed service token d now spec st =
           (Inr (take (pageSize spec) (drop (offset spec)
              (ranks st (getPersonalizedFeedKey (specUserId spec) (specFeedId spec))))), st)"
  using assms
  by (simp add: generatePersonalizedFeed_def Let_def needsFetch_def slice_def)

theorem fresh_cache_served_without_fetch_witness:
  "generatePersonalizedFeed downService ''token'' dbTags 1000 (page 2 0) (seededState 990) =
     (Inr [''7'', ''8''], seededState 990) \<and>
   calls (seededState 990) = [] \<and>
   generatePersonalizedFeed tinybird ''token'' dbTags 1000 (page 2 0) (seededState 990) =
     (Inr [''7'', ''8''], seededState 990)"
proof -
  have t: "times (seededState 990)
             (getPersonalizedFeedKey (specUserId (page 2 0)) (specFeedId (page 2 0))) = Some 990"
    by (simp add: anonKey_pages seededState_def)
  have f: "\<not> isStale 1000 990"
    by (simp add: isStale_def staleThreshold_def)
  have c: "offset (page 2 0) + pageSize (page 2 0)
           \<le> length (ranks (seededState 990)
                (getPersonalizedFeedKey (specUserId (page 2 0)) (specFeedId (page 2 0))))"
    by (simp add: anonKey_def seededState_def page_def)
  have r: "take (pageSize (page 2 0)) (drop (offset (page 2 0))
              (ranks (seededState 990)
                (getPersonalizedFeedKey (specUserId (page 2 0)) (specFeedId (page 2 0))))) =
           [''7'', ''8'']"
    by (simp add: anonKey_def seededState_def page_def)
  from fresh_cache_served_without_fetch[OF t f c, of downService "''token''" dbTags]
       fresh_cache_served_without_fetch[OF t f c, of tinybird "''token''" dbTags] r
  show ?thesis by (simp add: seededState_def)
qed


text \<open>
  C1, as amended. Against a cold cache (no ids, no timestamp) a request at offset 0 sends
  exactly one request to the ranking service and returns the first \<open>pageSize\<close> ids of
  the response, in order. The request for the next page, made while the cache is fresh,
  is answered from the cache, the state unchanged, provided the response held at least
  twice \<open>pageSize\<close> ids, so that the cache covers the next page.
\<close>

theorem cold_cache_first_page:
  assumes "ranks st (getPersonalizedFeedKey (specUserId spec) (specFeedId spec)) = []"
    and "times st (getPersonalizedFeedKey (specUserId spec) (specFeedId spec)) = None"
    and "offset spec = 0"
    and "service (rankingRequest token spec (map_option (feedToFilters d) (specFeedId spec))) =
           Some resp"
  shows "fst (generatePersonalizedFeed service token d now spec st) =
           Inr (take (pageSize spec) resp) \<and>
         calls (snd (generatePersonalizedFeed service token d now spec st)) =
           calls st @ [rankingRequest token spec (map_option (feedToFilters d) (specFeedId spec))] \<and>
         (\<forall>now' service'.
            \<not> isStale now' now \<longrightarrow> 2 * pageSize spec \<le> length resp \<longrightarrow>
            generatePersonalizedFeed service' token d now' (spec\<lparr>offset := pageSize spec\<rparr>)
              (snd (generatePersonalizedFeed service token d now spec st)) =
            (Inr (take (pageSize spec) (drop (pageSize spec) resp)),
             snd (generatePersonalizedFeed service token d now spec st)))"
proof -
  let ?key = "getPersonalizedFeedKey (specUserId spec) (specFeedId spec)"
  let ?req = "rankingRequest token spec (map_option (feedToFilters d) (specFeedId spec))"
  let ?st1 = "st\<lparr>calls := calls st @ [?req], ranks := (ranks st)(?key := resp),
                 times := (times st)(?key \<mapsto> now)\<rparr>"
  have nf: "needsFetch now spec (ranks st ?key) (times st ?key)"
    using assms(2) by (simp add: needsFetch_def)
  have first: "generatePersonalizedFeed service token d now spec st =
                 (Inr (take (pageSize spec) resp), ?st1)"
    using generate_fetch[of now spec st service token d resp, OF nf assms(4)] assms(1,2,3)
    by (simp add: Let_def mergeFetched_def revalidates_def slice_def)
  have second: "generatePersonalizedFeed service' token d now' (spec\<lparr>offset := pageSize spec\<rparr>) ?st1 =
            (Inr (take (pageSize spec) (drop (pageSize spec) resp)), ?st1)"
    if fr: "\<not> isStale now' now" and cov: "2 * pageSize spec \<le> length resp" for now' service'
  proof -
    have "\<not> needsFetch now' (spec\<lparr>offset := pageSize spec\<rparr>)
             (ranks ?st1 (getPersonalizedFeedKey (specUserId (spec\<lparr>offset := pageSize spec\<rparr>))
                (specFeedId (spec\<lparr>offset := pageSize spec\<rparr>))))
             (times ?st1 (getPersonalizedFeedKey (specUserId (spec\<lparr>offset := pageSize spec\<rparr>))
                (specFeedId (spec\<lparr>offset := pageSize spec\<rparr>))))"
      using fr cov by (simp add: needsFetch_def)
    from generate_cached[OF this] show ?thesis by (simp add: slice_def)
  qed
  from first second show ?thesis by simp
qed

theorem cold_cache_first_page_witness:
  "fst (generatePersonalizedFeed tinybird ''token'' dbTags 1000 (page 2 0) coldState) =
     Inr [''1'', ''2''] \<and>
   calls (snd (generatePersonalizedFeed tinybird ''token'' dbTags 1000 (page 2 0) coldState)) =
     [''/feed.json?token=token&page_size=2&fresh_page_size=1''] \<and>
   generatePersonalizedFeed downService ''token'' dbTags 1050 (page 2 2)
       (snd (generatePersonalizedFeed tinybird ''token'' dbTags 1000 (page 2 0) coldState)) =
     (Inr [''3'', ''4''],
      snd (generatePersonalizedFeed tinybird ''token'' dbTags 1000 (page 2 0) coldState))"
proof -
  have c1: "ranks coldState (getPersonalizedFeedKey (specUserId (page 2 0)) (specFeedId (page 2 0))) = []"
    by (simp add: coldState_def)
  have c2: "times coldState (getPersonalizedFeedKey (specUserId (page 2 0)) (specFeedId (page 2 0))) = None"
    by (simp add: coldState_def)
  have o: "offset (page 2 0) = 0" by (simp add: page_def)
  have r: "tinybird (rankingRequest ''token'' (page 2 0)
             (map_option (feedToFilters dbTags) (specFeedId (page 2 0)))) =
           Some tinybirdResponse"
    by (simp add: tinybird_def)
  have q: "rankingRequest ''token'' (page 2 0)
             (map_option (feedToFilters dbTags) (specFeedId (page 2 0))) =
           ''/feed.json?token=token&page_size=2&fresh_page_size=1''"
    using anonymous_request[of 0] by (simp add: page_def)
  have f: "\<not> isStale 1050 1000" by (simp add: isStale_def staleThreshold_def)
  have n: "2 * pageSize (page 2 0) \<le> length tinybirdResponse"
    by (simp add: page_def tinybirdResponse_def)
  have p: "(page 2 0)\<lparr>offset := pageSize (page 2 0)\<rparr> = page 2 2" by (simp add: page_def)
  have s: "pageSize (page 2 0) = 2" by (simp add: page_def)
  note inst = cold_cache_first_page[of coldState "page 2 0" tinybird "''token''" dbTags
      tinybirdResponse 1000, OF c1 c2 o r]
  from inst[THEN conjunct1] s
  have a: "fst (generatePersonalizedFeed tinybird ''token'' dbTags 1000 (page 2 0) coldState) =
     Inr [''1'', ''2'']" by (simp add: tinybirdResponse_def)
  from inst[THEN conjunct2, THEN conjunct1] q
  have b: "calls (snd (generatePersonalizedFeed tinybird ''token'' dbTags 1000 (page 2 0) coldState)) =
     [''/feed.json?token=token&page_size=2&fresh_page_size=1'']"
    by (simp add: coldState_def)
  from inst[THEN conjunct2, THEN conjunct2, rule_format, of 1050 downService, OF f n] p s
  have c: "generatePersonalizedFeed downService ''token'' dbTags 1050 (page 2 2)
       (snd (generatePersonalizedFeed tinybird ''token'' dbTags 1000 (page 2 0) coldState)) =
     (Inr [''3'', ''4''],
      snd (generatePersonalizedFeed tinybird ''token'' dbTags 1000 (page 2 0) coldState))"
    by (simp add: tinybirdResponse_def)
  from a b c show ?thesis by blast
qed

text \<open>
  C1 as stated fails: when the ranking service answers a page of size 2 with just two
  ids, the request for the next page reaches beyond the cached ids and a second request
  is sent.
\<close>

theorem next_page_refetch_counterexample:
  "fst (generatePersonalizedFeed shortService ''token'' dbTags 1000 (page 2 0) coldState) =
     Inr [''1'', ''2''] \<and>
   calls (snd (generatePersonalizedFeed shortService ''token'' dbTags 1050 (page 2 2)
            (snd (generatePersonalizedFeed shortService ''token'' dbTags 1000 (page 2 0) coldState)))) =
     [''/feed.json?token=token&page_size=2&fresh_page_size=1'',
      ''/feed.json?token=token&page_size=2&fresh_page_size=1'']"
proof -
  have one: "generatePersonalizedFeed shortService ''token'' dbTags 1000 (page 2 0) coldState =
      (Inr [''1'', ''2''],
       \<lparr>ranks = (\<lambda>k. [])(anonKey := [''1'', ''2'']), times = (\<lambda>k. None)(anonKey \<mapsto> 1000),
        calls = [''/feed.json?token=token&page_size=2&fresh_page_size=1'']\<rparr>)"
    by (simp add: generatePersonalizedFeed_def Let_def needsFetch_def coldState_def
        shortService_def mergeFetched_def revalidates_def slice_def page_sel anonKey_eq
        anonymous_request)
  have two: "calls (snd (generatePersonalizedFeed shortService ''token'' dbTags 1050 (page 2 2)
      \<lparr>ranks = (\<lambda>k. [])(anonKey := [''1'', ''2'']), times = (\<lambda>k. None)(anonKey \<mapsto> 1000),
        calls = [''/feed.json?token=token&page_size=2&fresh_page_size=1'']\<rparr>)) =
     [''/feed.json?token=token&page_size=2&fresh_page_size=1'',
      ''/feed.json?token=token&page_size=2&fresh_page_size=1'']"
    by (simp add: generatePersonalizedFeed_def Let_def needsFetch_def
        shortService_def page_sel anonKey_eq anonymous_request)
  from one two show ?thesis by simp
qed




end
